theory Spec2Isabelle
  imports Main "HOL-Library.Word"
begin

unbundle bit_operations_syntax

section \<open>Data model\<close>

text \<open>
  The two scripts build plain JavaScript objects. A descriptor is an object with
  \<open>mediaType\<close>, \<open>digest\<close>, \<open>size\<close> and, for the per-file layers only, \<open>annotations\<close>;
  a manifest is an object with \<open>schemaVersion\<close>, \<open>mediaType\<close>, \<open>artifactType\<close>,
  \<open>config\<close>, \<open>layers\<close> and, after approach D, \<open>subject\<close>. A property that an object
  does not have is \<open>None\<close>. The field \<open>size\<close> is called \<open>size_d\<close> and the manifest's
  \<open>mediaType\<close> is called \<open>mediaType_m\<close>, since the plain names are taken.

  A JavaScript string is modelled by the bytes of its UTF-8 encoding, one \<^typ>\<open>char\<close>
  per byte; a \<open>Buffer\<close> is the list of its bytes. So \<open>data.length\<close> of a buffer is
  \<^const>\<open>length\<close>. Text files are taken to hold valid UTF-8, so that reading a file as
  \<open>utf8\<close> and writing a string back are the identity on the bytes.
\<close>

record descriptor =
  mediaType :: string
  digest :: string
  size_d :: nat
  annotations :: "(string \<times> string) list option"

record manifest =
  schemaVersion :: nat
  mediaType_m :: string
  artifactType :: string
  config :: descriptor
  layers :: "descriptor list"
  subject :: "descriptor option"

section \<open>The process and its surroundings\<close>

text \<open>
  What a run can end with instead of a value: an uncaught \<open>TypeError\<close> (argument
  validation of a library function), an uncaught file-system error (tagged with the
  failing call), an uncaught error of \<open>execSync\<close> (the child exited non-zero), or
  \<open>process.exit(code)\<close>.
\<close>

datatype error = TypeError | FsError string | ExecError | ProcessExit nat

text \<open>
  The mutable surroundings: regular files with their bytes, directories with the entry
  names in the order \<open>readdirSync\<close> yields them, and the lines printed by
  \<open>console.log\<close> and \<open>console.error\<close>. \<open>git_status\<close> is what
  \<open>git submodule status\<close> prints in this repository (\<open>None\<close> when the command fails).
  \<open>clock\<close> is the time of day in seconds; the scripts do not read it, but a child
  process can (tar and gzip put time stamps into an archive).
\<close>

record world =
  files :: "string \<rightharpoonup> string"
  dirs :: "string \<rightharpoonup> string list"
  stdout :: "string list"
  stderr :: "string list"
  git_status :: "string option"
  clock :: nat

text \<open>
  The parts of the platform that the scripts call but do not define:
  \<^item> \<open>cwd\<close>: \<open>process.cwd()\<close>;
  \<^item> \<open>sha256\<close>: the SHA-256 function of \<open>crypto.createHash("sha256")\<close>, from the bytes
    to the 256-bit hash value;
  \<^item> \<open>child_process\<close>: what running a shell command does, as \<open>execSync\<close> of
    \<open>tarFiles\<close> sees it: given the command line and the surroundings, whether the
    command exits with status 0, and the surroundings it leaves behind. Nothing is
    assumed of it: the shell and tar decide how the line is read, what the archive
    holds and where it is written;
  \<^item> \<open>stringify\<close>: \<open>JSON.stringify(manifest, null, 2)\<close>;
  \<^item> \<open>stringify_data\<close>: \<open>JSON.stringify(submoduleData, null, 2)\<close>.
\<close>

record submoduleData =
  name_d :: string
  path_d :: "string option"
  url_d :: "string option"
  commit :: string
  branch_d :: string

record platform =
  cwd :: string
  sha256 :: "string \<Rightarrow> 256 word"
  child_process :: "string \<Rightarrow> world \<Rightarrow> bool \<times> world"
  stringify :: "manifest \<Rightarrow> string"
  stringify_data :: "submoduleData \<Rightarrow> string"

type_synonym 'a io = "world \<Rightarrow> (error + 'a) \<times> world"

definition return_io :: "'a \<Rightarrow> 'a io" where
  "return_io x = (\<lambda>w. (Inr x, w))"

definition throw_io :: "error \<Rightarrow> 'a io" where
  "throw_io e = (\<lambda>w. (Inl e, w))"

definition bind_io :: "'a io \<Rightarrow> ('a \<Rightarrow> 'b io) \<Rightarrow> 'b io" where
  "bind_io m f = (\<lambda>w. case m w of (Inl e, w') \<Rightarrow> (Inl e, w') | (Inr x, w') \<Rightarrow> f x w')"

definition console_log :: "string \<Rightarrow> unit io" where
  "console_log msg = (\<lambda>w. (Inr (), w\<lparr>stdout := stdout w @ [msg]\<rparr>))"

definition console_error :: "string \<Rightarrow> unit io" where
  "console_error msg = (\<lambda>w. (Inr (), w\<lparr>stderr := stderr w @ [msg]\<rparr>))"

definition process_exit :: "nat \<Rightarrow> 'a io" where
  "process_exit code = throw_io (ProcessExit code)"

subsection \<open>Paths (the POSIX half of Node's \<open>path\<close> module)\<close>

definition slash :: char where
  "slash = CHR ''/''"

text \<open>\<open>path.basename(p)\<close>: trailing slashes are dropped, then the part after the last
  slash is returned.\<close>

definition basename :: "string \<Rightarrow> string" where
  "basename p = rev (takeWhile (\<lambda>c. c \<noteq> slash) (dropWhile (\<lambda>c. c = slash) (rev p)))"

text \<open>\<open>path.dirname(p)\<close>: scanning from the end down to index 1, trailing slashes
  and then the last component are skipped; the path up to the slash found there is
  returned, with \<open>.\<close>, \<open>/\<close> and \<open>//\<close> for the paths that have no such slash.\<close>

definition dirname :: "string \<Rightarrow> string" where
  "dirname p =
     (if p = [] then ''.''
      else let hasRoot = (hd p = slash);
               r = dropWhile (\<lambda>c. c \<noteq> slash) (dropWhile (\<lambda>c. c = slash) (rev (tl p)));
               stop = length r
           in if r = [] then (if hasRoot then ''/'' else ''.'')
              else if hasRoot \<and> stop = 1 then ''//''
              else take stop p)"

fun split_on :: "char \<Rightarrow> string \<Rightarrow> string list" where
  "split_on s [] = [[]]"
| "split_on s (c # cs) =
     (if c = s then [] # split_on s cs
      else case split_on s cs of [] \<Rightarrow> [[c]] | x # xs \<Rightarrow> (c # x) # xs)"

fun join_with :: "string \<Rightarrow> string list \<Rightarrow> string" where
  "join_with s [] = []"
| "join_with s [x] = x"
| "join_with s (x # y # ys) = x @ s @ join_with s (y # ys)"

text \<open>The segment stack of \<open>normalizeString\<close>: empty and \<open>.\<close> segments are dropped,
  \<open>..\<close> removes the segment before it, or stays when there is none to remove and the
  path is relative.\<close>

fun normalize_segs :: "bool \<Rightarrow> string list \<Rightarrow> string list \<Rightarrow> string list" where
  "normalize_segs allowAboveRoot acc [] = rev acc"
| "normalize_segs allowAboveRoot acc (s # ss) =
     (if s = [] \<or> s = ''.'' then normalize_segs allowAboveRoot acc ss
      else if s = ''..'' then
        (case acc of
           [] \<Rightarrow> normalize_segs allowAboveRoot (if allowAboveRoot then [''..''] else []) ss
         | a # as \<Rightarrow>
             if a = ''..'' then normalize_segs allowAboveRoot (''..'' # acc) ss
             else normalize_segs allowAboveRoot as ss)
      else normalize_segs allowAboveRoot (s # acc) ss)"

definition normalize :: "string \<Rightarrow> string" where
  "normalize p =
     (if p = [] then ''.''
      else let isAbsolute = (hd p = slash);
               trailingSeparator = (last p = slash);
               q = join_with ''/'' (normalize_segs (\<not> isAbsolute) [] (split_on slash p))
           in if q = [] then (if isAbsolute then ''/'' else if trailingSeparator then ''./'' else ''.'')
              else (if isAbsolute then ''/'' else []) @ q @ (if trailingSeparator then ''/'' else []))"

text \<open>\<open>path.join(a, b)\<close>: the non-empty arguments joined by a slash, normalised.\<close>

definition path_join :: "string \<Rightarrow> string \<Rightarrow> string" where
  "path_join a b =
     (let joined = (if a = [] then b else if b = [] then a else a @ ''/'' @ b)
      in if joined = [] then ''.'' else normalize joined)"

subsection \<open>File system calls\<close>

definition existsSync :: "string \<Rightarrow> bool io" where
  "existsSync p = (\<lambda>w. (Inr (files w p \<noteq> None \<or> dirs w p \<noteq> None), w))"

text \<open>\<open>mkdirSync\<close> is only ever called on a path that does not exist.\<close>

definition mkdirSync :: "string \<Rightarrow> unit io" where
  "mkdirSync p = (\<lambda>w. (Inr (), w\<lparr>dirs := (dirs w)(p \<mapsto> [])\<rparr>))"

definition readdirSync :: "string \<Rightarrow> string list io" where
  "readdirSync p = (\<lambda>w. case dirs w p of None \<Rightarrow> (Inl (FsError ''scandir''), w)
                          | Some names \<Rightarrow> (Inr names, w))"

definition readFileSync :: "string \<Rightarrow> string io" where
  "readFileSync p = (\<lambda>w. case files w p of None \<Rightarrow> (Inl (FsError ''open''), w)
                           | Some data \<Rightarrow> (Inr data, w))"

text \<open>Writing fails on a directory and below a directory that does not exist.\<close>

definition writeFileSync :: "string \<Rightarrow> string \<Rightarrow> unit io" where
  "writeFileSync p data = (\<lambda>w.
     if dirs w p \<noteq> None \<or> dirs w (dirname p) = None then (Inl (FsError ''open''), w)
     else (Inr (), w\<lparr>files := (files w)(p \<mapsto> data)\<rparr>))"

definition unlinkSync :: "string \<Rightarrow> unit io" where
  "unlinkSync p = (\<lambda>w. case files w p of None \<Rightarrow> (Inl (FsError ''unlink''), w)
                         | Some _ \<Rightarrow> (Inr (), w\<lparr>files := (files w)(p := None)\<rparr>))"

section \<open>The ABI script (\<open>gen.js\<close>)\<close>

subsection \<open>Configuration constants\<close>

definition ABI_DIR :: "platform \<Rightarrow> string" where
  "ABI_DIR P = path_join (cwd P) ''contracts''"

definition OUTPUT_DIR :: "platform \<Rightarrow> string" where
  "OUTPUT_DIR P = path_join (cwd P) ''output''"

definition SINGLE_LAYER_TGZ :: "platform \<Rightarrow> string" where
  "SINGLE_LAYER_TGZ P = path_join (OUTPUT_DIR P) ''abis-single-layer.tgz''"

definition SINGLE_CONFIG_TGZ :: "platform \<Rightarrow> string" where
  "SINGLE_CONFIG_TGZ P = path_join (OUTPUT_DIR P) ''abis-config.tgz''"

definition MANIFEST_JSON :: "platform \<Rightarrow> string" where
  "MANIFEST_JSON P = path_join (OUTPUT_DIR P) ''manifest.json''"

definition EMPTY_DESCRIPTOR :: descriptor where
  "EMPTY_DESCRIPTOR =
     \<lparr>mediaType = ''application/vnd.oci.empty.v1+json'',
      digest = ''sha256:44136fa355b3678a1146ad16f7e8649e94fb4fc21fe77e8310c060f61caaff8a'',
      size_d = 2,
      annotations = None\<rparr>"

definition SUBJECT_DESCRIPTOR :: descriptor where
  "SUBJECT_DESCRIPTOR =
     \<lparr>mediaType = ''application/vnd.oci.image.manifest.v1+json'',
      digest = ''sha256:1111111111111111111111111111111111111111111111111111111111111111'',
      size_d = 9999,
      annotations = None\<rparr>"

subsection \<open>Helper functions\<close>

definition ensureOutputDir :: "platform \<Rightarrow> unit io" where
  "ensureOutputDir P =
     bind_io (existsSync (OUTPUT_DIR P)) (\<lambda>ex.
       if \<not> ex then mkdirSync (OUTPUT_DIR P) else return_io ())"

definition quote :: string where
  "quote = [CHR 0x27]"

definition endsWith :: "string \<Rightarrow> string \<Rightarrow> bool" where
  "endsWith s suffix = (length suffix \<le> length s \<and> drop (length s - length suffix) s = suffix)"

definition listAbiFiles :: "platform \<Rightarrow> string list io" where
  "listAbiFiles P =
     bind_io (existsSync (ABI_DIR P)) (\<lambda>ex.
       if \<not> ex then
         bind_io (console_error (''No '' @ quote @ ''contracts'' @ quote @ '' directory found at: '' @ ABI_DIR P))
           (\<lambda>_. process_exit 1)
       else
         bind_io (readdirSync (ABI_DIR P)) (\<lambda>names.
           return_io (map (\<lambda>f. path_join (ABI_DIR P) f) (filter (\<lambda>f. endsWith f ''.abi'') names))))"

text \<open>
  \<open>execSync(command)\<close>, as \<open>tarFiles\<close> calls it for the effect of the command:
  it runs the command in a shell and throws when the command exits non-zero.
\<close>

definition execSync :: "platform \<Rightarrow> string \<Rightarrow> unit io" where
  "execSync P command = (\<lambda>w.
     case child_process P command w of
       (True, w') \<Rightarrow> (Inr (), w')
     | (False, w') \<Rightarrow> (Inl ExecError, w'))"

text \<open>
  \<open>tarFiles\<close> builds the command line
  \<open>tar -czf "out" -C "parent" "name" "name" ...\<close> from its template string and runs
  it. \<open>path.dirname(fileList[0])\<close> comes first: on an empty list \<open>fileList[0]\<close> is
  \<open>undefined\<close>, and \<open>path.dirname\<close> throws a \<open>TypeError\<close> on an argument that is
  not a string.
\<close>

definition dquote :: string where
  "dquote = [CHR 0x22]"

definition tarFiles :: "platform \<Rightarrow> string list \<Rightarrow> string \<Rightarrow> unit io" where
  "tarFiles P fileList outTgzPath =
     (case fileList of
        [] \<Rightarrow> throw_io TypeError
      | f0 # _ \<Rightarrow>
          let parent = dirname f0;
              baseNames = join_with (dquote @ '' '' @ dquote) (map basename fileList)
          in execSync P (''tar -czf '' @ dquote @ outTgzPath @ dquote @ '' -C '' @ dquote @ parent @ dquote
                           @ '' '' @ dquote @ baseNames @ dquote))"

text \<open>\<open>digest("hex")\<close>: the 64 lowercase hexadecimal digits of the hash, most
  significant first.\<close>

definition hex_digit :: "nat \<Rightarrow> char" where
  "hex_digit n = ''0123456789abcdef'' ! n"

definition hex :: "256 word \<Rightarrow> string" where
  "hex h = map (\<lambda>i. hex_digit (unat (drop_bit (4 * (63 - i)) h AND 15))) [0..<64]"

text \<open>The result is the object \<open>{digest, size}\<close>, here the pair of the two.\<close>

definition computeDigestAndSize :: "platform \<Rightarrow> string \<Rightarrow> (string \<times> nat) io" where
  "computeDigestAndSize P filePath =
     bind_io (readFileSync filePath) (\<lambda>data.
       let hash = hex (sha256 P data)
       in return_io (''sha256:'' @ hash, length data))"

subsection \<open>The four approaches\<close>

definition approachA :: "platform \<Rightarrow> string list \<Rightarrow> manifest io" where
  "approachA P abiFiles =
     bind_io (console_log ''Approach A: minimal config + single layer with all ABI files.'') (\<lambda>_.
     bind_io (existsSync (SINGLE_LAYER_TGZ P)) (\<lambda>ex.
     bind_io (if ex then unlinkSync (SINGLE_LAYER_TGZ P) else return_io ()) (\<lambda>_.
     bind_io (tarFiles P abiFiles (SINGLE_LAYER_TGZ P)) (\<lambda>_.
     bind_io (computeDigestAndSize P (SINGLE_LAYER_TGZ P)) (\<lambda>(dg, sz).
     return_io
       \<lparr>schemaVersion = 2,
        mediaType_m = ''application/vnd.oci.image.manifest.v1+json'',
        artifactType = ''application/vnd.solidity.abi'',
        config = EMPTY_DESCRIPTOR,
        layers = [\<lparr>mediaType = ''application/vnd.solidity.abi.layer.v1+tar+gzip'',
                    digest = dg, size_d = sz, annotations = None\<rparr>],
        subject = None\<rparr>)))))"

definition approachB :: "platform \<Rightarrow> string list \<Rightarrow> manifest io" where
  "approachB P abiFiles =
     bind_io (console_log ''Approach B: everything in config, no layers.'') (\<lambda>_.
     bind_io (existsSync (SINGLE_CONFIG_TGZ P)) (\<lambda>ex.
     bind_io (if ex then unlinkSync (SINGLE_CONFIG_TGZ P) else return_io ()) (\<lambda>_.
     bind_io (tarFiles P abiFiles (SINGLE_CONFIG_TGZ P)) (\<lambda>_.
     bind_io (computeDigestAndSize P (SINGLE_CONFIG_TGZ P)) (\<lambda>(dg, sz).
     return_io
       \<lparr>schemaVersion = 2,
        mediaType_m = ''application/vnd.oci.image.manifest.v1+json'',
        artifactType = ''application/vnd.solidity.abi'',
        config = \<lparr>mediaType = ''application/vnd.solidity.abi.config.v1+tar+gzip'',
                   digest = dg, size_d = sz, annotations = None\<rparr>,
        layers = [],
        subject = None\<rparr>)))))"

text \<open>The \<open>forEach\<close> of approach C, pushing one layer per file onto \<open>layers\<close> (here \<open>acc\<close>).\<close>

fun approachC_forEach :: "platform \<Rightarrow> string list \<Rightarrow> descriptor list \<Rightarrow> descriptor list io" where
  "approachC_forEach P [] acc = return_io acc"
| "approachC_forEach P (filePath # rest) acc =
     bind_io (computeDigestAndSize P filePath) (\<lambda>(dg, sz).
       approachC_forEach P rest
         (acc @ [\<lparr>mediaType = ''application/vnd.solidity.abi.file'',
                      digest = dg, size_d = sz,
                      annotations = Some [(''org.opencontainers.image.title'', basename filePath)]\<rparr>]))"

definition approachC :: "platform \<Rightarrow> string list \<Rightarrow> manifest io" where
  "approachC P abiFiles =
     bind_io (console_log ''Approach C: minimal config, each ABI as a separate layer.'') (\<lambda>_.
     bind_io (approachC_forEach P abiFiles []) (\<lambda>ls.
     return_io
       \<lparr>schemaVersion = 2,
        mediaType_m = ''application/vnd.oci.image.manifest.v1+json'',
        artifactType = ''application/vnd.solidity.abi'',
        config = EMPTY_DESCRIPTOR,
        layers = ls,
        subject = None\<rparr>))"

definition approachD :: "platform \<Rightarrow> string list \<Rightarrow> manifest io" where
  "approachD P abiFiles =
     bind_io (console_log (''Approach D: referencing another manifest with '' @ quote @ ''subject''
                @ quote @ ''. Example uses Approach A + '' @ quote @ ''subject'' @ quote @ ''.'')) (\<lambda>_.
     bind_io (approachA P abiFiles) (\<lambda>baseManifest.
     return_io (baseManifest\<lparr>subject := Some SUBJECT_DESCRIPTOR\<rparr>)))"

subsection \<open>The entry point\<close>

text \<open>A number inside a template string: its decimal digits.\<close>

fun string_of_nat :: "nat \<Rightarrow> string" where
  "string_of_nat n =
     (if n < 10 then [hex_digit n] else string_of_nat (n div 10) @ [hex_digit (n mod 10)])"

text \<open>
  \<open>approach\<close> is \<open>process.argv[2]\<close>, \<open>None\<close> when the script is started without an
  argument. The \<open>switch\<close> is reached with one of the four letters only.
\<close>

definition main :: "platform \<Rightarrow> string option \<Rightarrow> unit io" where
  "main P approach =
     (if approach \<notin> set [Some ''A'', Some ''B'', Some ''C'', Some ''D''] then
        bind_io (console_error ''Usage: node store-solidity-abis.js [A|B|C|D]'') (\<lambda>_. process_exit 1)
      else
        bind_io (ensureOutputDir P) (\<lambda>_.
        bind_io (listAbiFiles P) (\<lambda>abiFiles.
          if length abiFiles = 0 then
            bind_io (console_error (''No .abi files found in '' @ quote @ ''contracts'' @ quote @ '' directory.''))
              (\<lambda>_. process_exit 1)
          else
            bind_io (console_log (''Found '' @ string_of_nat (length abiFiles) @ '' ABI files:''
                       @ join_with '','' (map (\<lambda>f. [CHR 0x0A] @ ''  '' @ f) abiFiles))) (\<lambda>_.
            bind_io (if approach = Some ''A'' then approachA P abiFiles
                     else if approach = Some ''B'' then approachB P abiFiles
                     else if approach = Some ''C'' then approachC P abiFiles
                     else approachD P abiFiles) (\<lambda>manifest.
            bind_io (writeFileSync (MANIFEST_JSON P) (stringify P manifest)) (\<lambda>_.
            bind_io (console_log ([CHR 0x0A] @ ''Wrote manifest to: '' @ MANIFEST_JSON P @ [CHR 0x0A])) (\<lambda>_.
            bind_io (console_log ''Manifest contents:'') (\<lambda>_.
            console_log (stringify P manifest)))))))))"

section \<open>The submodule script (\<open>oci-submodules-approach-c.js\<close>, in the README)\<close>

subsection \<open>String functions of JavaScript\<close>

definition startsWith :: "string \<Rightarrow> string \<Rightarrow> bool" where
  "startsWith s p = (take (length p) s = p)"

text \<open>
  The white space of \<open>trim()\<close> and of \<open>\s\<close>, as UTF-8: tab, line feed, vertical tab,
  form feed, carriage return, space, U+00A0, U+1680, U+2000 to U+200A, U+2028, U+2029,
  U+202F, U+205F, U+3000 and U+FEFF.
\<close>

definition white_space :: "string list" where
  "white_space =
     map (\<lambda>c. [c]) [CHR 0x09, CHR 0x0A, CHR 0x0B, CHR 0x0C, CHR 0x0D, CHR 0x20]
     @ [[CHR 0xC2, CHR 0xA0], [CHR 0xE1, CHR 0x9A, CHR 0x80]]
     @ map (\<lambda>c. [CHR 0xE2, CHR 0x80, c])
         [CHR 0x80, CHR 0x81, CHR 0x82, CHR 0x83, CHR 0x84, CHR 0x85, CHR 0x86, CHR 0x87,
          CHR 0x88, CHR 0x89, CHR 0x8A, CHR 0xA8, CHR 0xA9, CHR 0xAF]
     @ [[CHR 0xE2, CHR 0x81, CHR 0x9F], [CHR 0xE3, CHR 0x80, CHR 0x80], [CHR 0xEF, CHR 0xBB, CHR 0xBF]]"

text \<open>The line terminators, which \<open>.\<close> does not match: line feed, carriage return,
  U+2028 and U+2029.\<close>

definition line_terminators :: "string list" where
  "line_terminators =
     [[CHR 0x0A], [CHR 0x0D], [CHR 0xE2, CHR 0x80, CHR 0xA8], [CHR 0xE2, CHR 0x80, CHR 0xA9]]"

text \<open>\<open>skip toks s\<close> drops from the front of \<open>s\<close> every leading occurrence of one of
  \<open>toks\<close>; the counter bounds the number of steps by the length of \<open>s\<close>.\<close>

fun skip_n :: "nat \<Rightarrow> string list \<Rightarrow> string \<Rightarrow> string" where
  "skip_n 0 toks s = s"
| "skip_n (Suc n) toks s =
     (case find (\<lambda>t. t \<noteq> [] \<and> startsWith s t) toks of
        None \<Rightarrow> s
      | Some t \<Rightarrow> skip_n n toks (drop (length t) s))"

definition skip :: "string list \<Rightarrow> string \<Rightarrow> string" where
  "skip toks s = skip_n (length s) toks s"

definition trim :: "string \<Rightarrow> string" where
  "trim s = rev (skip (map rev white_space) (rev (skip white_space s)))"

text \<open>\<open>upto toks s\<close> is the longest prefix of \<open>s\<close> in which none of \<open>toks\<close> starts:
  what a greedy \<open>.*\<close> matches at the front of \<open>s\<close>.\<close>

fun upto :: "string list \<Rightarrow> string \<Rightarrow> string" where
  "upto toks [] = []"
| "upto toks (c # cs) =
     (if list_ex (\<lambda>t. startsWith (c # cs) t) toks then [] else c # upto toks cs)"

text \<open>\<open>line.match(/"(.*)"/)\<close>: the first group, for the leftmost quote that has another
  quote after it before the next line terminator, up to the last such quote.\<close>

fun match_quoted :: "string \<Rightarrow> string option" where
  "match_quoted [] = None"
| "match_quoted (c # cs) =
     (if c = CHR 0x22 \<and> CHR 0x22 \<in> set (upto line_terminators cs) then
        Some (rev (tl (dropWhile (\<lambda>x. x \<noteq> CHR 0x22) (rev (upto line_terminators cs)))))
      else match_quoted cs)"

text \<open>\<open>line.match(/key\s*=\s*(.*)/)\<close>: the first group, for the leftmost occurrence of
  \<open>key\<close> that is followed by white space and an equals sign.\<close>

fun match_assign :: "string \<Rightarrow> string \<Rightarrow> string option" where
  "match_assign key [] = None"
| "match_assign key (c # cs) =
     (if startsWith (c # cs) key
         \<and> startsWith (skip white_space (drop (length key) (c # cs))) ''=''
      then Some (upto line_terminators
                   (skip white_space (tl (skip white_space (drop (length key) (c # cs))))))
      else match_assign key cs)"

text \<open>\<open>line.split(/\s+/)\<close>: the pieces between the maximal runs of white space.\<close>

fun split_ws_n :: "nat \<Rightarrow> string \<Rightarrow> string \<Rightarrow> string list" where
  "split_ws_n 0 cur s = [rev cur]"
| "split_ws_n (Suc n) cur [] = [rev cur]"
| "split_ws_n (Suc n) cur (c # cs) =
     (if skip white_space (c # cs) \<noteq> c # cs
      then rev cur # split_ws_n n [] (skip white_space (c # cs))
      else split_ws_n n (c # cur) cs)"

definition split_ws :: "string \<Rightarrow> string list" where
  "split_ws s = split_ws_n (length s) [] s"

subsection \<open>Objects used as dictionaries\<close>

text \<open>
  An object is the list of its own properties in the order of their creation;
  assigning to a key that exists keeps its place. Assigning to the key \<open>__proto__\<close>
  creates no own property. \<open>Object.keys\<close> lists the keys that are array indices
  first, in ascending order, then the others in the order of their creation.
  Properties inherited from \<open>Object.prototype\<close> are not modelled.
\<close>

fun obj_set :: "string \<Rightarrow> 'v \<Rightarrow> (string \<times> 'v) list \<Rightarrow> (string \<times> 'v) list" where
  "obj_set k v [] = (if k = ''__proto__'' then [] else [(k, v)])"
| "obj_set k v ((k', v') # kvs) =
     (if k = ''__proto__'' then (k', v') # kvs
      else if k' = k then (k, v) # kvs
      else (k', v') # obj_set k v kvs)"

definition obj_get :: "(string \<times> 'v) list \<Rightarrow> string \<Rightarrow> 'v option" where
  "obj_get obj k = map_of obj k"

definition is_digit :: "char \<Rightarrow> bool" where
  "is_digit c = (c \<in> set ''0123456789'')"

definition int_of_digits :: "string \<Rightarrow> int" where
  "int_of_digits s = foldl (\<lambda>n c. 10 * n + (of_char c - 48)) 0 s"

definition is_array_index :: "string \<Rightarrow> bool" where
  "is_array_index k =
     (k \<noteq> [] \<and> list_all is_digit k \<and> (k = ''0'' \<or> hd k \<noteq> CHR ''0'')
      \<and> length k \<le> 10 \<and> int_of_digits k < 4294967295)"

definition Object_keys :: "(string \<times> 'v) list \<Rightarrow> string list" where
  "Object_keys obj =
     sort_key int_of_digits (filter is_array_index (map fst obj))
     @ filter (\<lambda>k. \<not> is_array_index k) (map fst obj)"

subsection \<open>Reading the submodules\<close>

text \<open>The entry of one submodule in the result of \<open>parseGitmodules\<close>: \<open>name\<close> is
  always there, the others once their line has been seen.\<close>

record submodule =
  name :: string
  path :: "string option"
  url :: "string option"
  branch :: "string option"

definition SUBMODULE_LAYER_DIR :: "platform \<Rightarrow> string" where
  "SUBMODULE_LAYER_DIR P = path_join (cwd P) ''submodule-layers''"

definition EMPTY_DESCRIPTOR_sub :: descriptor where
  "EMPTY_DESCRIPTOR_sub =
     \<lparr>mediaType = ''application/vnd.oci.empty.v1+json'',
      digest = ''sha256:44136fa355b3678a1146ad16f7e8649e94fb4fc21fe77e8310c060f61caaff8a'',
      size_d = 2,
      annotations = None\<rparr>"

text \<open>\<open>currentSubmodule && ...\<close>: \<open>null\<close> and the empty string are falsy.\<close>

definition truthy :: "string option \<Rightarrow> bool" where
  "truthy v = (v \<noteq> None \<and> v \<noteq> Some [])"

definition obj_update :: "string \<Rightarrow> ('v \<Rightarrow> 'v) \<Rightarrow> (string \<times> 'v) list \<Rightarrow> (string \<times> 'v) list" where
  "obj_update k f obj = map (\<lambda>(k', v). if k' = k then (k', f v) else (k', v)) obj"

text \<open>The loop over the lines, with \<open>currentSubmodule\<close> and \<open>submodules\<close> as its
  state.\<close>

fun parseGitmodules_lines ::
  "string list \<Rightarrow> string option \<Rightarrow> (string \<times> submodule) list \<Rightarrow> (string \<times> submodule) list" where
  "parseGitmodules_lines [] currentSubmodule submodules = submodules"
| "parseGitmodules_lines (l # ls) currentSubmodule submodules =
     (let line = trim l in
      if startsWith line ''[submodule'' then
        (case match_quoted line of
           Some m \<Rightarrow>
             parseGitmodules_lines ls (Some m)
               (obj_set m \<lparr>name = m, path = None, url = None, branch = None\<rparr> submodules)
         | None \<Rightarrow> parseGitmodules_lines ls currentSubmodule submodules)
      else if truthy currentSubmodule \<and> startsWith line ''path'' then
        (case match_assign ''path'' line of
           Some m \<Rightarrow>
             parseGitmodules_lines ls currentSubmodule
               (obj_update (the currentSubmodule) (\<lambda>i. i\<lparr>path := Some (trim m)\<rparr>) submodules)
         | None \<Rightarrow> parseGitmodules_lines ls currentSubmodule submodules)
      else if truthy currentSubmodule \<and> startsWith line ''url'' then
        (case match_assign ''url'' line of
           Some m \<Rightarrow>
             parseGitmodules_lines ls currentSubmodule
               (obj_update (the currentSubmodule) (\<lambda>i. i\<lparr>url := Some (trim m)\<rparr>) submodules)
         | None \<Rightarrow> parseGitmodules_lines ls currentSubmodule submodules)
      else if truthy currentSubmodule \<and> startsWith line ''branch'' then
        (case match_assign ''branch'' line of
           Some m \<Rightarrow>
             parseGitmodules_lines ls currentSubmodule
               (obj_update (the currentSubmodule) (\<lambda>i. i\<lparr>branch := Some (trim m)\<rparr>) submodules)
         | None \<Rightarrow> parseGitmodules_lines ls currentSubmodule submodules)
      else parseGitmodules_lines ls currentSubmodule submodules)"

definition parseGitmodules :: "string \<Rightarrow> (string \<times> submodule) list io" where
  "parseGitmodules gitmodulesPath =
     bind_io (existsSync gitmodulesPath) (\<lambda>ex.
       if \<not> ex then return_io []
       else
         bind_io (readFileSync gitmodulesPath) (\<lambda>content.
           let lines = split_on (CHR 0x0A) content
           in return_io (parseGitmodules_lines lines None [])))"

text \<open>The loop of \<open>getSubmoduleCommits\<close> over the trimmed, non-empty lines of the
  output of git; \<open>replace(/^[-+]/, "")\<close> removes one leading sign.\<close>

fun getSubmoduleCommits_lines :: "string list \<Rightarrow> (string \<times> string) list \<Rightarrow> (string \<times> string) list" where
  "getSubmoduleCommits_lines [] result = result"
| "getSubmoduleCommits_lines (line # ls) result =
     (let parts = split_ws line in
      if length parts \<ge> 2 then
        let sha = (if startsWith (parts ! 0) ''-'' \<or> startsWith (parts ! 0) ''+''
                   then tl (parts ! 0) else parts ! 0);
            subPath = parts ! 1
        in getSubmoduleCommits_lines ls (obj_set subPath sha result)
      else getSubmoduleCommits_lines ls result)"

text \<open>When git fails, \<open>execSync\<close> throws inside the \<open>try\<close>; the \<open>catch\<close> prints a
  line (the text of the error object is left out) and the empty result is returned.\<close>

definition getSubmoduleCommits :: "(string \<times> string) list io" where
  "getSubmoduleCommits = (\<lambda>w.
     case git_status w of
       None \<Rightarrow> bind_io (console_error ''Error running git submodule status:'') (\<lambda>_. return_io []) w
     | Some out \<Rightarrow>
         let lines = filter (\<lambda>l. l \<noteq> []) (map trim (split_on (CHR 0x0A) out))
         in return_io (getSubmoduleCommits_lines lines []) w)"

definition computeDigestAndSize_sub :: "platform \<Rightarrow> string \<Rightarrow> (string \<times> nat) io" where
  "computeDigestAndSize_sub P filePath =
     bind_io (readFileSync filePath) (\<lambda>fileBuffer.
       let sz = length fileBuffer;
           dg = ''sha256:'' @ hex (sha256 P fileBuffer)
       in return_io (dg, sz))"

subsection \<open>The entry point\<close>

text \<open>The body of the \<open>forEach\<close> over \<open>Object.keys(submodules)\<close>. \<open>submodules[subName]\<close>
  is an own property for every such key; reading \<open>path\<close> of \<open>undefined\<close> would be a
  \<open>TypeError\<close>. A missing \<open>info.path\<close> is looked up as the key \<open>undefined\<close>; an
  empty or missing commit becomes \<open>UNKNOWN\<close>.\<close>

fun main_sub_forEach ::
  "platform \<Rightarrow> (string \<times> submodule) list \<Rightarrow> (string \<times> string) list \<Rightarrow> string list
     \<Rightarrow> descriptor list \<Rightarrow> descriptor list io" where
  "main_sub_forEach P submodules submoduleCommits [] acc = return_io acc"
| "main_sub_forEach P submodules submoduleCommits (subName # rest) acc =
     (case obj_get submodules subName of
        None \<Rightarrow> throw_io TypeError
      | Some info \<Rightarrow>
          let commitSha =
                (case obj_get submoduleCommits (case path info of None \<Rightarrow> ''undefined'' | Some p \<Rightarrow> p) of
                   None \<Rightarrow> ''UNKNOWN''
                 | Some sha \<Rightarrow> if sha = [] then ''UNKNOWN'' else sha);
              submoduleData =
                \<lparr>name_d = name info, path_d = path info, url_d = url info, commit = commitSha,
                 branch_d = (case branch info of None \<Rightarrow> [] | Some b \<Rightarrow> b)\<rparr>;
              layerFileName = map (\<lambda>c. if c = slash then CHR ''_'' else c) subName @ ''.json'';
              layerFilePath = path_join (SUBMODULE_LAYER_DIR P) layerFileName
          in bind_io (writeFileSync layerFilePath (stringify_data P submoduleData)) (\<lambda>_.
             bind_io (computeDigestAndSize_sub P layerFilePath) (\<lambda>(dg, sz).
               main_sub_forEach P submodules submoduleCommits rest
                 (acc @ [\<lparr>mediaType = ''application/vnd.example.git-submodule.layer.v1+json'',
                           digest = dg, size_d = sz,
                           annotations = Some [(''org.opencontainers.image.title'', subName)]\<rparr>]))))"

fun log_all :: "string list \<Rightarrow> unit io" where
  "log_all [] = return_io ()"
| "log_all (l # ls) = bind_io (console_log l) (\<lambda>_. log_all ls)"

definition layer_line :: "descriptor \<Rightarrow> string" where
  "layer_line l =
     ''  - '' @ (case annotations l of None \<Rightarrow> [] | Some a \<Rightarrow>
                  (case map_of a ''org.opencontainers.image.title'' of None \<Rightarrow> [] | Some t \<Rightarrow> t))
     @ '' => '' @ digest l @ '' (size: '' @ string_of_nat (size_d l) @ '')''"

definition next_steps :: "string list" where
  "next_steps =
     [[CHR 0x0A] @ ''Next steps to push to GitHub'' @ [CHR 0xE2, CHR 0x80, CHR 0x99] @ ''s OCI registry:'',
      ''1) Upload each layer blob (the .json files) to the registry, for example using ORAS:'',
      ''   oras push ghcr.io/<OWNER>/<REPO>:<TAG> '' @ [CHR 0x5C],
      ''       --artifact-type application/vnd.example.git-submodules '' @ [CHR 0x5C],
      ''       --config /dev/null:application/vnd.oci.empty.v1+json '' @ [CHR 0x5C],
      ''       ./submodule-layers/deps_foo.json:application/vnd.example.git-submodule.layer.v1+json '' @ [CHR 0x5C],
      ''       ./submodule-layers/deps_bar.json:application/vnd.example.git-submodule.layer.v1+json ...'',
      ''   (ORAS will automatically create a manifest with references to these blobs, although you may need to pass some flags.)'',
      ''   Alternatively, you can separately upload blobs and then link them in a custom step if you prefer a more manual approach.'',
      [CHR 0x0A] @ ''2) Or manually push using '' @ quote @ ''manifest.json'' @ quote
        @ '' if your tooling supports passing a pre-built manifest.'',
      [CHR 0x0A] @ ''Done!'']"

definition manifestPath :: "platform \<Rightarrow> string" where
  "manifestPath P = path_join (cwd P) ''manifest.json''"

definition main_sub :: "platform \<Rightarrow> unit io" where
  "main_sub P =
     (let repoRoot = cwd P;
          gitmodulesPath = path_join repoRoot ''.gitmodules''
      in
        bind_io (parseGitmodules gitmodulesPath) (\<lambda>submodules.
        bind_io getSubmoduleCommits (\<lambda>submoduleCommits.
        bind_io (existsSync (SUBMODULE_LAYER_DIR P)) (\<lambda>ex.
        bind_io (if \<not> ex then mkdirSync (SUBMODULE_LAYER_DIR P) else return_io ()) (\<lambda>_.
        bind_io (main_sub_forEach P submodules submoduleCommits (Object_keys submodules) []) (\<lambda>ls.
        let manifest =
              \<lparr>schemaVersion = 2,
               mediaType_m = ''application/vnd.oci.image.manifest.v1+json'',
               artifactType = ''application/vnd.example.git-submodules'',
               config = EMPTY_DESCRIPTOR_sub,
               layers = ls,
               subject = None\<rparr>
        in
        bind_io (writeFileSync (manifestPath P) (stringify P manifest)) (\<lambda>_.
        bind_io (console_log (''Wrote manifest to '' @ manifestPath P @ ''.'')) (\<lambda>_.
        bind_io (console_log (''Created submodule layer files in '' @ SUBMODULE_LAYER_DIR P @ ''.'')) (\<lambda>_.
        bind_io (console_log ([CHR 0x0A] @ ''Manifest layers:'')) (\<lambda>_.
        bind_io (log_all (map layer_line ls)) (\<lambda>_.
        log_all next_steps)))))))))))"

section \<open>A small installation for the examples\<close>

text \<open>
  The examples run the scripts in the directory \<open>/w\<close>. The hash function of the
  example platform is a stand-in: it agrees with SHA-256 on the empty input and on the
  two bytes \<open>{}\<close>, and is the sum of the bytes elsewhere. Its two \<open>JSON.stringify\<close>
  print a few of the fields.

  Its shell runs tar only. The arguments are the parts of the command line between
  double quotes. The command fails when the directory of the archive or a member is
  missing; otherwise it writes the archive: the time, then the names and contents of
  the members. Every command takes one second.
\<close>

definition example_sha256 :: "string \<Rightarrow> 256 word" where
  "example_sha256 b =
     (if b = [] then 0xe3b0c44298fc1c149afbf4c8996fb92427ae41e4649b934ca495991b7852b855
      else if b = ''{}'' then 0x44136fa355b3678a1146ad16f7e8649e94fb4fc21fe77e8310c060f61caaff8a
      else of_nat (sum_list (map of_char b)))"

fun quoted_args :: "string list \<Rightarrow> string list" where
  "quoted_args (before # arg # rest) = arg # quoted_args rest"
| "quoted_args _ = []"

definition example_tar :: "string \<Rightarrow> world \<Rightarrow> bool \<times> world" where
  "example_tar command w =
     (case quoted_args (split_on (CHR 0x22) command) of
        out # parent # names \<Rightarrow>
          if take 9 command = ''tar -czf ''
             \<and> dirs w (dirname out) \<noteq> None \<and> dirs w out = None
             \<and> names \<noteq> [] \<and> list_all (\<lambda>n. files w (path_join parent n) \<noteq> None) names
          then (True,
                w\<lparr>files := (files w)(out \<mapsto>
                     ''time='' @ string_of_nat (clock w) @ '';''
                     @ concat (map (\<lambda>n. n @ '':'' @ the (files w (path_join parent n)) @ '';'') names)),
                  clock := clock w + 1\<rparr>)
          else (False, w\<lparr>clock := clock w + 1\<rparr>)
      | _ \<Rightarrow> (False, w\<lparr>clock := clock w + 1\<rparr>))"

definition example_platform :: platform where
  "example_platform =
     \<lparr>cwd = ''/w'',
      sha256 = example_sha256,
      child_process = example_tar,
      stringify = (\<lambda>m. artifactType m @ '' config '' @ digest (config m)
                     @ concat (map (\<lambda>l. '' layer '' @ digest l) (layers m))
                     @ (case subject m of None \<Rightarrow> [] | Some s \<Rightarrow> '' subject '' @ digest s)),
      stringify_data = (\<lambda>d. name_d d @ ''@'' @ commit d)\<rparr>"

definition example_world :: world where
  "example_world =
     \<lparr>files = [''/w/contracts/A.abi'' \<mapsto> ''[]'', ''/w/contracts/B.abi'' \<mapsto> ''[{}]'',
               ''/w/contracts/notes.txt'' \<mapsto> ''n'', ''/w/empty'' \<mapsto> []],
      dirs = [''/w'' \<mapsto> [''contracts'', ''empty'', ''output''],
              ''/w/contracts'' \<mapsto> [''A.abi'', ''notes.txt'', ''B.abi''],
              ''/w/output'' \<mapsto> []],
      stdout = [], stderr = [], git_status = None, clock = 0\<rparr>"

definition example_abiFiles :: "string list" where
  "example_abiFiles = [''/w/contracts/A.abi'', ''/w/contracts/B.abi'']"

text \<open>The same installation before the first run, without the \<open>output\<close> directory.\<close>

definition example_world_fresh :: world where
  "example_world_fresh =
     example_world\<lparr>dirs := [''/w'' \<mapsto> [''contracts'', ''empty''],
                              ''/w/contracts'' \<mapsto> [''A.abi'', ''notes.txt'', ''B.abi'']]\<rparr>"

text \<open>The same installation with a \<open>contracts\<close> directory that holds no \<open>.abi\<close>
  file.\<close>

definition example_world_no_abi :: world where
  "example_world_no_abi = example_world\<lparr>dirs := (dirs example_world)(''/w/contracts'' \<mapsto> [''notes.txt''])\<rparr>"

text \<open>The same installation with a \<open>.gitmodules\<close> file that holds a comment and a
  setting, but no submodule.\<close>

definition example_world_gitmodules :: world where
  "example_world_gitmodules =
     example_world\<lparr>files := (files example_world)
       (''/w/.gitmodules'' \<mapsto> ''# none'' @ [CHR 0x0A] @ ''path = x'' @ [CHR 0x0A])\<rparr>"

section \<open>Properties\<close>

subsection \<open>Auxiliary facts\<close>

lemma bind_io_apply:
  "bind_io m f w = (case m w of (Inl e, w') \<Rightarrow> (Inl e, w') | (Inr x, w') \<Rightarrow> f x w')"
  by (simp add: bind_io_def)

lemma return_io_apply: "return_io x w = (Inr x, w)"
  by (simp add: return_io_def)

lemma throw_io_apply: "throw_io e w = (Inl e, w)"
  by (simp add: throw_io_def)

lemma console_log_apply: "console_log msg w = (Inr (), w\<lparr>stdout := stdout w @ [msg]\<rparr>)"
  by (simp add: console_log_def)

lemma unlink_step:
  "bind_io (existsSync p) (\<lambda>ex. bind_io (if ex then unlinkSync p else return_io ()) k) w =
     (case files w p of
        Some _ \<Rightarrow> k () (w\<lparr>files := (files w)(p := None)\<rparr>)
      | None \<Rightarrow> if dirs w p \<noteq> None then (Inl (FsError ''unlink''), w) else k () w)"
  by (auto simp: bind_io_def existsSync_def unlinkSync_def return_io_def split: option.splits)

lemma tarFiles_Nil: "tarFiles P [] out w = (Inl TypeError, w)"
  by (simp add: tarFiles_def throw_io_apply)

lemma computeDigestAndSize_apply:
  "computeDigestAndSize P p w =
     (case files w p of None \<Rightarrow> (Inl (FsError ''open''), w)
      | Some b \<Rightarrow> (Inr (''sha256:'' @ hex (sha256 P b), length b), w))"
  by (simp add: computeDigestAndSize_def bind_io_def readFileSync_def return_io_def split: option.splits)

lemma archive_step_eq:
  "bind_io (existsSync L) (\<lambda>ex. bind_io (if ex then unlinkSync L else return_io ()) (\<lambda>_.
     bind_io (tarFiles P fl L) (\<lambda>_. bind_io (computeDigestAndSize P L) k))) w =
   (if files w L = None \<and> dirs w L \<noteq> None then (Inl (FsError ''unlink''), w)
    else
      case tarFiles P fl L (w\<lparr>files := (files w)(L := None)\<rparr>) of
        (Inl e, w1) \<Rightarrow> (Inl e, w1)
      | (Inr u, w1) \<Rightarrow>
          (case files w1 L of
             None \<Rightarrow> (Inl (FsError ''open''), w1)
           | Some a \<Rightarrow> k (''sha256:'' @ hex (sha256 P a), length a) w1))"
proof -
  have step: "\<And>w1. bind_io (tarFiles P fl L) (\<lambda>_. bind_io (computeDigestAndSize P L) k) w1 =
      (case tarFiles P fl L w1 of
        (Inl e, w2) \<Rightarrow> (Inl e, w2)
      | (Inr u, w2) \<Rightarrow>
          (case files w2 L of
             None \<Rightarrow> (Inl (FsError ''open''), w2)
           | Some a \<Rightarrow> k (''sha256:'' @ hex (sha256 P a), length a) w2))"
    by (simp add: bind_io_apply computeDigestAndSize_apply split: prod.splits sum.splits option.splits)
  show ?thesis
  proof (cases "files w L")
    case None
    then show ?thesis
      unfolding unlink_step step by (simp add: fun_upd_idem)
  next
    case (Some b)
    then show ?thesis
      unfolding unlink_step step by simp
  qed
qed

lemma approachA_Inr:
  assumes "approachA P abiFiles w = (Inr m, w')"
  shows "\<exists>archive. abiFiles \<noteq> []
           \<and> files w' (SINGLE_LAYER_TGZ P) = Some archive
           \<and> m = \<lparr>schemaVersion = 2,
                   mediaType_m = ''application/vnd.oci.image.manifest.v1+json'',
                   artifactType = ''application/vnd.solidity.abi'',
                   config = EMPTY_DESCRIPTOR,
                   layers = [\<lparr>mediaType = ''application/vnd.solidity.abi.layer.v1+tar+gzip'',
                               digest = ''sha256:'' @ hex (sha256 P archive), size_d = length archive,
                               annotations = None\<rparr>],
                   subject = None\<rparr>"
  using assms
  by (auto simp: approachA_def bind_io_apply [of "console_log _"] console_log_apply archive_step_eq
      return_io_apply tarFiles_Nil split: if_splits prod.splits sum.splits option.splits)

lemma approachB_Inr:
  assumes "approachB P abiFiles w = (Inr m, w')"
  shows "\<exists>archive. abiFiles \<noteq> []
           \<and> files w' (SINGLE_CONFIG_TGZ P) = Some archive
           \<and> m = \<lparr>schemaVersion = 2,
                   mediaType_m = ''application/vnd.oci.image.manifest.v1+json'',
                   artifactType = ''application/vnd.solidity.abi'',
                   config = \<lparr>mediaType = ''application/vnd.solidity.abi.config.v1+tar+gzip'',
                              digest = ''sha256:'' @ hex (sha256 P archive), size_d = length archive,
                              annotations = None\<rparr>,
                   layers = [],
                   subject = None\<rparr>"
  using assms
  by (auto simp: approachB_def bind_io_apply [of "console_log _"] console_log_apply archive_step_eq
      return_io_apply tarFiles_Nil split: if_splits prod.splits sum.splits option.splits)

lemma approachA_Nil:
  "approachA P [] w =
     (if files w (SINGLE_LAYER_TGZ P) = None \<and> dirs w (SINGLE_LAYER_TGZ P) \<noteq> None
      then (Inl (FsError ''unlink''),
            w\<lparr>stdout := stdout w @ [''Approach A: minimal config + single layer with all ABI files.'']\<rparr>)
      else (Inl TypeError,
            w\<lparr>stdout := stdout w @ [''Approach A: minimal config + single layer with all ABI files.''],
              files := (files w)(SINGLE_LAYER_TGZ P := None)\<rparr>))"
  by (simp add: approachA_def bind_io_apply [of "console_log _"] console_log_apply archive_step_eq tarFiles_Nil)

lemma approachB_Nil:
  "approachB P [] w =
     (if files w (SINGLE_CONFIG_TGZ P) = None \<and> dirs w (SINGLE_CONFIG_TGZ P) \<noteq> None
      then (Inl (FsError ''unlink''),
            w\<lparr>stdout := stdout w @ [''Approach B: everything in config, no layers.'']\<rparr>)
      else (Inl TypeError,
            w\<lparr>stdout := stdout w @ [''Approach B: everything in config, no layers.''],
              files := (files w)(SINGLE_CONFIG_TGZ P := None)\<rparr>))"
  by (simp add: approachB_def bind_io_apply [of "console_log _"] console_log_apply archive_step_eq tarFiles_Nil)

lemma approachD_eq:
  "approachD P fl w =
     (case approachA P fl (w\<lparr>stdout := stdout w @
            [''Approach D: referencing another manifest with '' @ quote @ ''subject''
                @ quote @ ''. Example uses Approach A + '' @ quote @ ''subject'' @ quote @ ''.'']\<rparr>) of
        (Inl e, w') \<Rightarrow> (Inl e, w')
      | (Inr m, w') \<Rightarrow> (Inr (m\<lparr>subject := Some SUBJECT_DESCRIPTOR\<rparr>), w'))"
  by (simp add: approachD_def bind_io_apply console_log_apply return_io_apply split: prod.splits sum.splits)

lemma example_paths:
  "ABI_DIR example_platform = ''/w/contracts''"
  "OUTPUT_DIR example_platform = ''/w/output''"
  "SINGLE_LAYER_TGZ example_platform = ''/w/output/abis-single-layer.tgz''"
  "SINGLE_CONFIG_TGZ example_platform = ''/w/output/abis-config.tgz''"
  "MANIFEST_JSON example_platform = ''/w/output/manifest.json''"
  by (simp_all add: ABI_DIR_def OUTPUT_DIR_def SINGLE_LAYER_TGZ_def SINGLE_CONFIG_TGZ_def MANIFEST_JSON_def
      example_platform_def path_join_def normalize_def slash_def Let_def)

lemma hex_digit_mem: "n < 16 \<Longrightarrow> hex_digit n \<in> set ''0123456789abcdef''"
  unfolding hex_digit_def by (rule nth_mem) simp

lemma nibble_less: "unat ((x :: 256 word) AND 15) < 16"
proof -
  have "x AND 15 \<le> 15" by (rule word_and_le1)
  then have "unat (x AND 15) \<le> unat (15 :: 256 word)" by (simp add: word_le_nat_alt)
  then show ?thesis by simp
qed

lemma length_hex: "length (hex h) = 64"
  by (simp add: hex_def)

lemma set_hex: "set (hex h) \<subseteq> set ''0123456789abcdef''"
  unfolding hex_def using hex_digit_mem [OF nibble_less] by auto

lemma hex_sha256_empty:
  "hex 0xe3b0c44298fc1c149afbf4c8996fb92427ae41e4649b934ca495991b7852b855 =
     ''e3b0c44298fc1c149afbf4c8996fb92427ae41e4649b934ca495991b7852b855''"
  by (simp add: hex_def hex_digit_def upt_rec)

lemma hex_2272: "hex 2272 = ''00000000000000000000000000000000000000000000000000000000000008e0''"
  by (simp add: hex_def hex_digit_def upt_rec)

lemma hex_2273: "hex 2273 = ''00000000000000000000000000000000000000000000000000000000000008e1''"
  by (simp add: hex_def hex_digit_def upt_rec)

lemmas run_defs = bind_io_def return_io_def throw_io_def console_log_def console_error_def process_exit_def
  existsSync_def mkdirSync_def readdirSync_def readFileSync_def writeFileSync_def unlinkSync_def
  tarFiles_def execSync_def dquote_def computeDigestAndSize_def
  path_join_def normalize_def dirname_def basename_def slash_def Let_def

lemma example_platform_fields:
  "cwd example_platform = ''/w''"
  "sha256 example_platform = example_sha256"
  "child_process example_platform = example_tar"
  "stringify example_platform =
     (\<lambda>m. artifactType m @ '' config '' @ digest (config m)
         @ concat (map (\<lambda>l. '' layer '' @ digest l) (layers m))
         @ (case subject m of None \<Rightarrow> [] | Some s \<Rightarrow> '' subject '' @ digest s))"
  "stringify_data example_platform = (\<lambda>d. name_d d @ ''@'' @ commit d)"
  by (simp_all add: example_platform_def)

lemmas example_defs = example_platform_fields example_world_def example_abiFiles_def example_sha256_def

lemma example_tar_layer:
  "example_tar (''tar -czf '' @ dquote @ ''/w/output/abis-single-layer.tgz'' @ dquote @ '' -C '' @ dquote
       @ dirname ''/w/contracts/A.abi'' @ dquote @ '' '' @ dquote
       @ join_with (dquote @ '' '' @ dquote) (map basename example_abiFiles) @ dquote) w =
   (if dirs w ''/w/output'' \<noteq> None \<and> dirs w ''/w/output/abis-single-layer.tgz'' = None
        \<and> files w ''/w/contracts/A.abi'' \<noteq> None \<and> files w ''/w/contracts/B.abi'' \<noteq> None
    then (True, w\<lparr>files := (files w)(''/w/output/abis-single-layer.tgz'' \<mapsto>
                     ''time='' @ string_of_nat (clock w) @ '';A.abi:'' @ the (files w ''/w/contracts/A.abi'')
                       @ '';B.abi:'' @ the (files w ''/w/contracts/B.abi'') @ '';''),
                   clock := clock w + 1\<rparr>)
    else (False, w\<lparr>clock := clock w + 1\<rparr>))"
  by (simp add: example_tar_def example_abiFiles_def run_defs del: string_of_nat.simps)

lemma example_tar_config:
  "example_tar (''tar -czf '' @ dquote @ ''/w/output/abis-config.tgz'' @ dquote @ '' -C '' @ dquote
       @ dirname ''/w/contracts/A.abi'' @ dquote @ '' '' @ dquote
       @ join_with (dquote @ '' '' @ dquote) (map basename example_abiFiles) @ dquote) w =
   (if dirs w ''/w/output'' \<noteq> None \<and> dirs w ''/w/output/abis-config.tgz'' = None
        \<and> files w ''/w/contracts/A.abi'' \<noteq> None \<and> files w ''/w/contracts/B.abi'' \<noteq> None
    then (True, w\<lparr>files := (files w)(''/w/output/abis-config.tgz'' \<mapsto>
                     ''time='' @ string_of_nat (clock w) @ '';A.abi:'' @ the (files w ''/w/contracts/A.abi'')
                       @ '';B.abi:'' @ the (files w ''/w/contracts/B.abi'') @ '';''),
                   clock := clock w + 1\<rparr>)
    else (False, w\<lparr>clock := clock w + 1\<rparr>))"
  by (simp add: example_tar_def example_abiFiles_def run_defs del: string_of_nat.simps)

lemma example_tarFiles_layer:
  "tarFiles example_platform example_abiFiles ''/w/output/abis-single-layer.tgz'' w =
   (if dirs w ''/w/output'' \<noteq> None \<and> dirs w ''/w/output/abis-single-layer.tgz'' = None
        \<and> files w ''/w/contracts/A.abi'' \<noteq> None \<and> files w ''/w/contracts/B.abi'' \<noteq> None
    then (Inr (), w\<lparr>files := (files w)(''/w/output/abis-single-layer.tgz'' \<mapsto>
                     ''time='' @ string_of_nat (clock w) @ '';A.abi:'' @ the (files w ''/w/contracts/A.abi'')
                       @ '';B.abi:'' @ the (files w ''/w/contracts/B.abi'') @ '';''),
                   clock := clock w + 1\<rparr>)
    else (Inl ExecError, w\<lparr>clock := clock w + 1\<rparr>))"
  using example_tar_layer [of w]
  by (simp add: tarFiles_def execSync_def example_platform_fields example_abiFiles_def
      del: string_of_nat.simps)

lemma example_tarFiles_config:
  "tarFiles example_platform example_abiFiles ''/w/output/abis-config.tgz'' w =
   (if dirs w ''/w/output'' \<noteq> None \<and> dirs w ''/w/output/abis-config.tgz'' = None
        \<and> files w ''/w/contracts/A.abi'' \<noteq> None \<and> files w ''/w/contracts/B.abi'' \<noteq> None
    then (Inr (), w\<lparr>files := (files w)(''/w/output/abis-config.tgz'' \<mapsto>
                     ''time='' @ string_of_nat (clock w) @ '';A.abi:'' @ the (files w ''/w/contracts/A.abi'')
                       @ '';B.abi:'' @ the (files w ''/w/contracts/B.abi'') @ '';''),
                   clock := clock w + 1\<rparr>)
    else (Inl ExecError, w\<lparr>clock := clock w + 1\<rparr>))"
  using example_tar_config [of w]
  by (simp add: tarFiles_def execSync_def example_platform_fields example_abiFiles_def
      del: string_of_nat.simps)

lemma approachA_eq:
  "approachA P fl w =
     (if files w (SINGLE_LAYER_TGZ P) = None \<and> dirs w (SINGLE_LAYER_TGZ P) \<noteq> None
      then (Inl (FsError ''unlink''),
            w\<lparr>stdout := stdout w @ [''Approach A: minimal config + single layer with all ABI files.'']\<rparr>)
      else
        case tarFiles P fl (SINGLE_LAYER_TGZ P)
               (w\<lparr>stdout := stdout w @ [''Approach A: minimal config + single layer with all ABI files.''],
                  files := (files w)(SINGLE_LAYER_TGZ P := None)\<rparr>) of
          (Inl e, w1) \<Rightarrow> (Inl e, w1)
        | (Inr u, w1) \<Rightarrow>
            (case files w1 (SINGLE_LAYER_TGZ P) of
               None \<Rightarrow> (Inl (FsError ''open''), w1)
             | Some a \<Rightarrow>
                 (Inr \<lparr>schemaVersion = 2,
                       mediaType_m = ''application/vnd.oci.image.manifest.v1+json'',
                       artifactType = ''application/vnd.solidity.abi'',
                       config = EMPTY_DESCRIPTOR,
                       layers = [\<lparr>mediaType = ''application/vnd.solidity.abi.layer.v1+tar+gzip'',
                                   digest = ''sha256:'' @ hex (sha256 P a), size_d = length a,
                                   annotations = None\<rparr>],
                       subject = None\<rparr>, w1)))"
  by (simp add: approachA_def bind_io_apply [of "console_log _"] console_log_apply archive_step_eq
      return_io_apply split: prod.splits sum.splits option.splits)

lemma approachB_eq:
  "approachB P fl w =
     (if files w (SINGLE_CONFIG_TGZ P) = None \<and> dirs w (SINGLE_CONFIG_TGZ P) \<noteq> None
      then (Inl (FsError ''unlink''),
            w\<lparr>stdout := stdout w @ [''Approach B: everything in config, no layers.'']\<rparr>)
      else
        case tarFiles P fl (SINGLE_CONFIG_TGZ P)
               (w\<lparr>stdout := stdout w @ [''Approach B: everything in config, no layers.''],
                  files := (files w)(SINGLE_CONFIG_TGZ P := None)\<rparr>) of
          (Inl e, w1) \<Rightarrow> (Inl e, w1)
        | (Inr u, w1) \<Rightarrow>
            (case files w1 (SINGLE_CONFIG_TGZ P) of
               None \<Rightarrow> (Inl (FsError ''open''), w1)
             | Some a \<Rightarrow>
                 (Inr \<lparr>schemaVersion = 2,
                       mediaType_m = ''application/vnd.oci.image.manifest.v1+json'',
                       artifactType = ''application/vnd.solidity.abi'',
                       config = \<lparr>mediaType = ''application/vnd.solidity.abi.config.v1+tar+gzip'',
                                  digest = ''sha256:'' @ hex (sha256 P a), size_d = length a,
                                  annotations = None\<rparr>,
                       layers = [],
                       subject = None\<rparr>, w1)))"
  by (simp add: approachB_def bind_io_apply [of "console_log _"] console_log_apply archive_step_eq
      return_io_apply split: prod.splits sum.splits option.splits)

lemma example_approachA:
  "approachA example_platform example_abiFiles example_world =
     (Inr \<lparr>schemaVersion = 2,
          mediaType_m = ''application/vnd.oci.image.manifest.v1+json'',
          artifactType = ''application/vnd.solidity.abi'',
          config = EMPTY_DESCRIPTOR,
          layers = [\<lparr>mediaType = ''application/vnd.solidity.abi.layer.v1+tar+gzip'',
                      digest = ''sha256:00000000000000000000000000000000000000000000000000000000000008e0'',
                      size_d = 27, annotations = None\<rparr>],
          subject = None\<rparr>,
      example_world
        \<lparr>files := (files example_world)(''/w/output/abis-single-layer.tgz'' \<mapsto> ''time=0;A.abi:[];B.abi:[{}];''),
         stdout := [''Approach A: minimal config + single layer with all ABI files.''],
         clock := 1\<rparr>)"
  by (simp add: approachA_eq example_paths example_tarFiles_layer example_world_def example_platform_fields
      example_sha256_def hex_2272 hex_digit_def)

lemma example_approachB:
  "approachB example_platform example_abiFiles example_world =
     (Inr \<lparr>schemaVersion = 2,
          mediaType_m = ''application/vnd.oci.image.manifest.v1+json'',
          artifactType = ''application/vnd.solidity.abi'',
          config = \<lparr>mediaType = ''application/vnd.solidity.abi.config.v1+tar+gzip'',
                     digest = ''sha256:00000000000000000000000000000000000000000000000000000000000008e0'',
                     size_d = 27, annotations = None\<rparr>,
          layers = [],
          subject = None\<rparr>,
      example_world
        \<lparr>files := (files example_world)(''/w/output/abis-config.tgz'' \<mapsto> ''time=0;A.abi:[];B.abi:[{}];''),
         stdout := [''Approach B: everything in config, no layers.''],
         clock := 1\<rparr>)"
  by (simp add: approachB_eq example_paths example_tarFiles_config example_world_def example_platform_fields
      example_sha256_def hex_2272 hex_digit_def)

lemma example_approachD:
  "approachD example_platform example_abiFiles example_world =
     (Inr \<lparr>schemaVersion = 2,
          mediaType_m = ''application/vnd.oci.image.manifest.v1+json'',
          artifactType = ''application/vnd.solidity.abi'',
          config = EMPTY_DESCRIPTOR,
          layers = [\<lparr>mediaType = ''application/vnd.solidity.abi.layer.v1+tar+gzip'',
                      digest = ''sha256:00000000000000000000000000000000000000000000000000000000000008e0'',
                      size_d = 27, annotations = None\<rparr>],
          subject = Some SUBJECT_DESCRIPTOR\<rparr>,
      example_world
        \<lparr>files := (files example_world)(''/w/output/abis-single-layer.tgz'' \<mapsto> ''time=0;A.abi:[];B.abi:[{}];''),
         stdout := [''Approach D: referencing another manifest with '' @ quote @ ''subject''
                      @ quote @ ''. Example uses Approach A + '' @ quote @ ''subject'' @ quote @ ''.'',
                    ''Approach A: minimal config + single layer with all ABI files.''],
         clock := 1\<rparr>)"
  by (simp add: approachD_eq approachA_eq example_paths example_tarFiles_layer example_world_def
      example_platform_fields example_sha256_def hex_2272 hex_digit_def)


lemma example_approachD_after_A:
  "approachD example_platform example_abiFiles
     (snd (approachA example_platform example_abiFiles example_world)) =
     (Inr \<lparr>schemaVersion = 2,
          mediaType_m = ''application/vnd.oci.image.manifest.v1+json'',
          artifactType = ''application/vnd.solidity.abi'',
          config = EMPTY_DESCRIPTOR,
          layers = [\<lparr>mediaType = ''application/vnd.solidity.abi.layer.v1+tar+gzip'',
                      digest = ''sha256:00000000000000000000000000000000000000000000000000000000000008e1'',
                      size_d = 27, annotations = None\<rparr>],
          subject = Some SUBJECT_DESCRIPTOR\<rparr>,
      example_world
        \<lparr>files := (files example_world)(''/w/output/abis-single-layer.tgz'' \<mapsto> ''time=1;A.abi:[];B.abi:[{}];''),
         stdout := [''Approach A: minimal config + single layer with all ABI files.'',
                    ''Approach D: referencing another manifest with '' @ quote @ ''subject''
                      @ quote @ ''. Example uses Approach A + '' @ quote @ ''subject'' @ quote @ ''.'',
                    ''Approach A: minimal config + single layer with all ABI files.''],
         clock := 2\<rparr>)"
  unfolding example_approachA snd_conv
  by (simp add: approachD_eq approachA_eq example_paths example_tarFiles_layer
      example_world_def example_platform_fields example_sha256_def hex_2273 hex_digit_def)

lemma approachC_forEach_ok:
  assumes "\<forall>p\<in>set fl. files w p \<noteq> None"
  shows "approachC_forEach P fl acc w =
     (Inr (acc @ map (\<lambda>p. \<lparr>mediaType = ''application/vnd.solidity.abi.file'',
                             digest = ''sha256:'' @ hex (sha256 P (the (files w p))),
                             size_d = length (the (files w p)),
                             annotations = Some [(''org.opencontainers.image.title'', basename p)]\<rparr>) fl), w)"
  using assms
proof (induction fl arbitrary: acc)
  case Nil
  then show ?case by (simp add: return_io_apply)
next
  case (Cons p fl)
  then obtain b where b: "files w p = Some b" by auto
  from Cons.prems have "\<forall>p\<in>set fl. files w p \<noteq> None" by simp
  from Cons.IH [OF this] b show ?case
    by (simp add: bind_io_apply computeDigestAndSize_apply)
qed

lemma approachC_forEach_Inr:
  assumes "approachC_forEach P fl acc w = (Inr ls, w')"
  shows "\<forall>p\<in>set fl. files w p \<noteq> None"
  using assms
proof (induction fl arbitrary: acc)
  case Nil
  then show ?case by simp
next
  case (Cons p fl)
  then show ?case
    by (auto simp: bind_io_apply computeDigestAndSize_apply split: option.splits)
qed

lemma split_on_nonempty: "split_on s xs \<noteq> []"
  by (induction xs) (auto split: list.splits)

lemma split_on_no_sep: "s \<notin> set seg \<Longrightarrow> split_on s seg = [seg]"
  by (induction seg) auto

lemma split_on_append:
  "s \<notin> set seg \<Longrightarrow> split_on s (c @ s # seg) = split_on s c @ [seg]"
proof (induction c)
  case Nil
  then show ?case by (simp add: split_on_no_sep)
next
  case (Cons x c)
  then show ?case
    using split_on_nonempty [of s c] by (cases "split_on s c") auto
qed

lemma normalize_segs_snoc:
  "seg \<noteq> [] \<Longrightarrow> seg \<noteq> ''.'' \<Longrightarrow> seg \<noteq> ''..'' \<Longrightarrow>
   normalize_segs a acc (xs @ [seg]) = normalize_segs a acc xs @ [seg]"
  by (induction a acc xs rule: normalize_segs.induct) (auto split: list.splits)

lemma join_with_snoc:
  "seg \<noteq> [] \<Longrightarrow> join_with s (ys @ [seg]) \<noteq> [] \<and> last (join_with s (ys @ [seg])) = last seg"
  by (induction s ys rule: join_with.induct) auto

lemma last_normalize:
  assumes "seg \<noteq> []" "slash \<notin> set seg" "seg \<noteq> ''.''" "seg \<noteq> ''..''"
    and p: "p = seg \<or> p = c @ slash # seg"
  shows "last (normalize p) = last seg"
proof -
  from p assms(1) have ne: "p \<noteq> []" by auto
  from p assms(1) have lp: "last p = last seg" by auto
  from assms(1,2) have "last seg \<noteq> slash" using last_in_set by metis
  with lp have nt: "last p \<noteq> slash" by simp
  from p obtain xs where xs: "split_on slash p = xs @ [seg]"
    using split_on_no_sep [OF assms(2)] split_on_append [OF assms(2), of c] by auto
  let ?q = "join_with ''/'' (normalize_segs (hd p \<noteq> slash) [] (split_on slash p))"
  have q: "?q \<noteq> [] \<and> last ?q = last seg"
    unfolding xs normalize_segs_snoc [OF assms(1,3,4)] using join_with_snoc [OF assms(1)] by simp
  with ne nt show ?thesis
    by (simp add: normalize_def Let_def)
qed

lemma last_path_join:
  assumes "seg \<noteq> []" "slash \<notin> set seg" "seg \<noteq> ''.''" "seg \<noteq> ''..''"
  shows "last (path_join c seg) = last seg"
proof -
  have "path_join c seg = normalize (if c = [] then seg else c @ slash # seg)"
    using assms(1) by (simp add: path_join_def Let_def slash_def)
  moreover have "(if c = [] then seg else c @ slash # seg) = seg
      \<or> (if c = [] then seg else c @ slash # seg) = c @ slash # seg" by simp
  ultimately show ?thesis using last_normalize [OF assms] by simp
qed

lemma ABI_DIR_neq_OUTPUT_DIR: "ABI_DIR P \<noteq> OUTPUT_DIR P"
proof
  assume "ABI_DIR P = OUTPUT_DIR P"
  then have "last (ABI_DIR P) = last (OUTPUT_DIR P)" by simp
  then show False
    unfolding ABI_DIR_def OUTPUT_DIR_def
    by (simp add: last_path_join slash_def)
qed

lemma manifestPath_neq_SUBMODULE_LAYER_DIR: "manifestPath P \<noteq> SUBMODULE_LAYER_DIR P"
proof
  assume "manifestPath P = SUBMODULE_LAYER_DIR P"
  then have "last (manifestPath P) = last (SUBMODULE_LAYER_DIR P)" by simp
  then show False
    unfolding manifestPath_def SUBMODULE_LAYER_DIR_def
    by (simp add: last_path_join slash_def)
qed

lemma approachC_Inr:
  assumes "approachC P fl w = (Inr m, w')"
  shows "(\<forall>p\<in>set fl. files w p \<noteq> None)
       \<and> w' = w\<lparr>stdout := stdout w @ [''Approach C: minimal config, each ABI as a separate layer.'']\<rparr>
       \<and> m = \<lparr>schemaVersion = 2,
               mediaType_m = ''application/vnd.oci.image.manifest.v1+json'',
               artifactType = ''application/vnd.solidity.abi'',
               config = EMPTY_DESCRIPTOR,
               layers = map (\<lambda>p. \<lparr>mediaType = ''application/vnd.solidity.abi.file'',
                                    digest = ''sha256:'' @ hex (sha256 P (the (files w p))),
                                    size_d = length (the (files w p)),
                                    annotations = Some [(''org.opencontainers.image.title'', basename p)]\<rparr>) fl,
               subject = None\<rparr>"
proof -
  let ?w = "w\<lparr>stdout := stdout w @ [''Approach C: minimal config, each ABI as a separate layer.'']\<rparr>"
  from assms obtain ls w1 where f: "approachC_forEach P fl [] ?w = (Inr ls, w1)"
    and m: "m = \<lparr>schemaVersion = 2,
               mediaType_m = ''application/vnd.oci.image.manifest.v1+json'',
               artifactType = ''application/vnd.solidity.abi'',
               config = EMPTY_DESCRIPTOR, layers = ls, subject = None\<rparr>" and w': "w' = w1"
    by (auto simp: approachC_def bind_io_apply console_log_apply return_io_apply split: prod.splits sum.splits)
  from approachC_forEach_Inr [OF f] have ex: "\<forall>p\<in>set fl. files ?w p \<noteq> None" .
  from approachC_forEach_ok [OF ex, of P "[]"] f m w' ex show ?thesis by simp
qed

lemma approachC_ok:
  assumes "\<forall>p\<in>set fl. files w p \<noteq> None"
  shows "approachC P fl w =
     (Inr \<lparr>schemaVersion = 2,
               mediaType_m = ''application/vnd.oci.image.manifest.v1+json'',
               artifactType = ''application/vnd.solidity.abi'',
               config = EMPTY_DESCRIPTOR,
               layers = map (\<lambda>p. \<lparr>mediaType = ''application/vnd.solidity.abi.file'',
                                    digest = ''sha256:'' @ hex (sha256 P (the (files w p))),
                                    size_d = length (the (files w p)),
                                    annotations = Some [(''org.opencontainers.image.title'', basename p)]\<rparr>) fl,
               subject = None\<rparr>,
      w\<lparr>stdout := stdout w @ [''Approach C: minimal config, each ABI as a separate layer.'']\<rparr>)"
proof -
  let ?w = "w\<lparr>stdout := stdout w @ [''Approach C: minimal config, each ABI as a separate layer.'']\<rparr>"
  from assms have ex: "\<forall>p\<in>set fl. files ?w p \<noteq> None" by simp
  from approachC_forEach_ok [OF ex, of P "[]"] show ?thesis
    by (simp add: approachC_def bind_io_apply console_log_apply return_io_apply)
qed

lemma example_approachC:
  "approachC example_platform example_abiFiles example_world =
     (Inr \<lparr>schemaVersion = 2,
          mediaType_m = ''application/vnd.oci.image.manifest.v1+json'',
          artifactType = ''application/vnd.solidity.abi'',
          config = EMPTY_DESCRIPTOR,
          layers = [\<lparr>mediaType = ''application/vnd.solidity.abi.file'',
                      digest = ''sha256:'' @ hex 184, size_d = 2,
                      annotations = Some [(''org.opencontainers.image.title'', ''A.abi'')]\<rparr>,
                    \<lparr>mediaType = ''application/vnd.solidity.abi.file'',
                      digest = ''sha256:'' @ hex 432, size_d = 4,
                      annotations = Some [(''org.opencontainers.image.title'', ''B.abi'')]\<rparr>],
          subject = None\<rparr>,
      example_world\<lparr>stdout := [''Approach C: minimal config, each ABI as a separate layer.'']\<rparr>)"
  by (simp add: approachC_def run_defs example_defs)

lemma ensureOutputDir_apply:
  "ensureOutputDir P w =
     (Inr (), if files w (OUTPUT_DIR P) \<noteq> None \<or> dirs w (OUTPUT_DIR P) \<noteq> None then w
              else w\<lparr>dirs := (dirs w)(OUTPUT_DIR P \<mapsto> [])\<rparr>)"
  by (simp add: ensureOutputDir_def bind_io_def existsSync_def mkdirSync_def return_io_def)

lemma listAbiFiles_apply:
  "listAbiFiles P w =
     (case dirs w (ABI_DIR P) of
        Some names \<Rightarrow>
          (Inr (map (\<lambda>f. path_join (ABI_DIR P) f) (filter (\<lambda>f. endsWith f ''.abi'') names)), w)
      | None \<Rightarrow>
          if files w (ABI_DIR P) = None then
            (Inl (ProcessExit 1),
             w\<lparr>stderr := stderr w @ [''No '' @ quote @ ''contracts'' @ quote @ '' directory found at: '' @ ABI_DIR P]\<rparr>)
          else (Inl (FsError ''scandir''), w))"
  by (simp add: listAbiFiles_def bind_io_def existsSync_def readdirSync_def return_io_def
      console_error_def process_exit_def throw_io_def split: option.splits)

lemma main_no_abi:
  assumes "approach \<in> {Some ''A'', Some ''B'', Some ''C'', Some ''D''}"
    and "dirs w (ABI_DIR P) = Some names"
    and "\<forall>f\<in>set names. \<not> endsWith f ''.abi''"
  shows "main P approach w =
     (Inl (ProcessExit 1),
      (if files w (OUTPUT_DIR P) \<noteq> None \<or> dirs w (OUTPUT_DIR P) \<noteq> None then w
       else w\<lparr>dirs := (dirs w)(OUTPUT_DIR P \<mapsto> [])\<rparr>)
        \<lparr>stderr := stderr w @ [''No .abi files found in '' @ quote @ ''contracts'' @ quote @ '' directory.'']\<rparr>)"
proof -
  let ?w1 = "if files w (OUTPUT_DIR P) \<noteq> None \<or> dirs w (OUTPUT_DIR P) \<noteq> None then w
             else w\<lparr>dirs := (dirs w)(OUTPUT_DIR P \<mapsto> [])\<rparr>"
  from assms(3) have empty: "filter (\<lambda>f. endsWith f ''.abi'') names = []"
    by (simp add: filter_empty_conv)
  have e: "ensureOutputDir P w = (Inr (), ?w1)"
    by (rule ensureOutputDir_apply)
  have d: "dirs ?w1 (ABI_DIR P) = Some names"
    using ABI_DIR_neq_OUTPUT_DIR [of P] assms(2) by simp
  have l: "listAbiFiles P ?w1 = (Inr [], ?w1)"
    unfolding listAbiFiles_apply d by (simp add: empty)
  have v: "(approach \<notin> set [Some ''A'', Some ''B'', Some ''C'', Some ''D'']) = False"
    using assms(1) by simp
  show ?thesis
    unfolding main_def
    apply (simp only: v if_False)
    apply (subst bind_io_apply)
    apply (simp only: e prod.case sum.case)
    apply (subst bind_io_apply)
    apply (simp only: l prod.case sum.case list.size if_True)
    apply (simp add: bind_io_apply console_error_def process_exit_def throw_io_def)
    done
qed

lemma example_no_abi_dirs:
  "dirs example_world_no_abi (ABI_DIR example_platform) = Some [''notes.txt'']"
  "files example_world_no_abi = files example_world"
  "stdout example_world_no_abi = []"
  "stderr example_world_no_abi = []"
  by (simp_all add: example_world_no_abi_def example_paths example_world_def)

lemma parseGitmodules_lines_no_header:
  assumes "\<forall>l\<in>set ls. \<not> (startsWith (trim l) ''[submodule'' \<and> match_quoted (trim l) \<noteq> None)"
  shows "parseGitmodules_lines ls None [] = []"
  using assms
proof (induction ls)
  case Nil
  then show ?case by simp
next
  case (Cons l ls)
  then have ih: "parseGitmodules_lines ls None [] = []" by simp
  from Cons.prems have h: "\<not> (startsWith (trim l) ''[submodule'' \<and> match_quoted (trim l) \<noteq> None)"
    by simp
  show ?case
  proof (cases "startsWith (trim l) ''[submodule''")
    case True
    with h have "match_quoted (trim l) = None" by simp
    with True ih show ?thesis by (simp add: Let_def)
  next
    case False
    with ih show ?thesis by (simp add: Let_def truthy_def)
  qed
qed

lemma parseGitmodules_absent:
  assumes "files w g = None" "dirs w g = None"
  shows "parseGitmodules g w = (Inr [], w)"
  using assms by (simp add: parseGitmodules_def bind_io_def existsSync_def return_io_def)

lemma parseGitmodules_no_header:
  assumes "files w g = Some content"
    and "\<forall>l\<in>set (split_on (CHR 0x0A) content).
           \<not> (startsWith (trim l) ''[submodule'' \<and> match_quoted (trim l) \<noteq> None)"
  shows "parseGitmodules g w = (Inr [], w)"
  using assms(1) parseGitmodules_lines_no_header [OF assms(2)]
  by (simp add: parseGitmodules_def bind_io_def existsSync_def readFileSync_def return_io_def Let_def)

lemma getSubmoduleCommits_world:
  "\<exists>c e. getSubmoduleCommits w = (Inr c, w\<lparr>stderr := stderr w @ e\<rparr>)"
proof (cases "git_status w")
  case None
  then have "getSubmoduleCommits w =
      (Inr [], w\<lparr>stderr := stderr w @ [''Error running git submodule status:'']\<rparr>)"
    by (simp add: getSubmoduleCommits_def bind_io_def console_error_def return_io_def)
  then show ?thesis by blast
next
  case (Some out)
  then have "getSubmoduleCommits w =
      (Inr (getSubmoduleCommits_lines (filter (\<lambda>l. l \<noteq> []) (map trim (split_on (CHR 0x0A) out))) []),
       w\<lparr>stderr := stderr w @ []\<rparr>)"
    by (simp add: getSubmoduleCommits_def return_io_def Let_def)
  then show ?thesis by blast
qed

lemma log_all_apply: "log_all ls w = (Inr (), w\<lparr>stdout := stdout w @ ls\<rparr>)"
  by (induction ls arbitrary: w) (simp_all add: return_io_def bind_io_def console_log_def)

lemma Object_keys_Nil: "Object_keys [] = []"
  by (simp add: Object_keys_def)

lemma main_sub_empty:
  assumes p: "parseGitmodules (path_join (cwd P) ''.gitmodules'') w = (Inr [], w)"
  shows "\<exists>w2 w3. files w2 = files w
           \<and> (dirs w2 = dirs w \<or> dirs w2 = (dirs w)(SUBMODULE_LAYER_DIR P \<mapsto> []))
           \<and> files w3 = (files w)(manifestPath P \<mapsto>
                 stringify P \<lparr>schemaVersion = 2,
                               mediaType_m = ''application/vnd.oci.image.manifest.v1+json'',
                               artifactType = ''application/vnd.example.git-submodules'',
                               config = EMPTY_DESCRIPTOR_sub,
                               layers = [],
                               subject = None\<rparr>)
           \<and> main_sub P w =
               (if dirs w2 (manifestPath P) \<noteq> None \<or> dirs w2 (dirname (manifestPath P)) = None
                then (Inl (FsError ''open''), w2) else (Inr (), w3))"
proof -
  obtain c e where gc: "getSubmoduleCommits w = (Inr c, w\<lparr>stderr := stderr w @ e\<rparr>)"
    using getSubmoduleCommits_world by blast
  let ?w1 = "w\<lparr>stderr := stderr w @ e\<rparr>"
  let ?S = "SUBMODULE_LAYER_DIR P"
  let ?w2 = "if files w ?S \<noteq> None \<or> dirs w ?S \<noteq> None then ?w1
             else ?w1\<lparr>dirs := (dirs w)(?S \<mapsto> [])\<rparr>"
  let ?doc = "stringify P \<lparr>schemaVersion = 2,
                               mediaType_m = ''application/vnd.oci.image.manifest.v1+json'',
                               artifactType = ''application/vnd.example.git-submodules'',
                               config = EMPTY_DESCRIPTOR_sub,
                               layers = [],
                               subject = None\<rparr>"
  let ?w3 = "?w2\<lparr>files := (files w)(manifestPath P \<mapsto> ?doc),
                 stdout := stdout w @ [''Wrote manifest to '' @ manifestPath P @ ''.'',
                                       ''Created submodule layer files in '' @ ?S @ ''.'',
                                       [CHR 0x0A] @ ''Manifest layers:''] @ next_steps\<rparr>"
  have e: "bind_io (existsSync ?S) (\<lambda>ex. bind_io (if \<not> ex then mkdirSync ?S else return_io ()) k) ?w1 = k () ?w2"
    for k :: "unit \<Rightarrow> unit io"
    by (simp add: bind_io_def existsSync_def mkdirSync_def return_io_def)
  have m: "main_sub P w =
      (if dirs ?w2 (manifestPath P) \<noteq> None \<or> dirs ?w2 (dirname (manifestPath P)) = None
       then (Inl (FsError ''open''), ?w2) else (Inr (), ?w3))"
    unfolding main_sub_def Let_def
    apply (subst bind_io_apply)
    apply (simp only: p prod.case sum.case)
    apply (subst bind_io_apply)
    apply (simp only: gc prod.case sum.case)
    apply (simp only: e)
    apply (simp add: Object_keys_Nil bind_io_apply return_io_apply writeFileSync_def console_log_apply
        log_all_apply)
    done
  have f2: "files ?w2 = files w" by simp
  have d2: "dirs ?w2 = dirs w \<or> dirs ?w2 = (dirs w)(?S \<mapsto> [])" by simp
  have f3: "files ?w3 = (files w)(manifestPath P \<mapsto> ?doc)" by simp
  from m f2 d2 f3 show ?thesis by blast
qed

lemma example_sub_paths:
  "path_join (cwd example_platform) ''.gitmodules'' = ''/w/.gitmodules''"
  "manifestPath example_platform = ''/w/manifest.json''"
  "SUBMODULE_LAYER_DIR example_platform = ''/w/submodule-layers''"
  "dirname ''/w/manifest.json'' = ''/w''"
  by (simp_all add: manifestPath_def SUBMODULE_LAYER_DIR_def example_platform_fields
      path_join_def normalize_def dirname_def slash_def Let_def)

lemma example_gitmodules_no_header:
  "\<forall>l\<in>set (split_on (CHR 0x0A) (''# none'' @ [CHR 0x0A] @ ''path = x'' @ [CHR 0x0A])).
      \<not> (startsWith (trim l) ''[submodule'' \<and> match_quoted (trim l) \<noteq> None)"
  by code_simp

lemma example_main_D:
  "main example_platform (Some ''D'') example_world_fresh =
     (Inr (),
      example_world_fresh
        \<lparr>files := (files example_world_fresh)
           (''/w/output/abis-single-layer.tgz'' \<mapsto> ''time=0;A.abi:[];B.abi:[{}];'',
            ''/w/output/manifest.json'' \<mapsto>
              ''application/vnd.solidity.abi config sha256:44136fa355b3678a1146ad16f7e8649e94fb4fc21fe77e8310c060f61caaff8a layer sha256:00000000000000000000000000000000000000000000000000000000000008e0 subject sha256:1111111111111111111111111111111111111111111111111111111111111111''),
         dirs := (dirs example_world_fresh)(''/w/output'' \<mapsto> []),
         stdout :=
           [''Found 2 ABI files:'' @ [CHR 0x0A] @ ''  /w/contracts/A.abi,'' @ [CHR 0x0A] @ ''  /w/contracts/B.abi'',
            ''Approach D: referencing another manifest with '' @ quote @ ''subject''
                @ quote @ ''. Example uses Approach A + '' @ quote @ ''subject'' @ quote @ ''.'',
            ''Approach A: minimal config + single layer with all ABI files.'',
            [CHR 0x0A] @ ''Wrote manifest to: /w/output/manifest.json'' @ [CHR 0x0A],
            ''Manifest contents:'',
            ''application/vnd.solidity.abi config sha256:44136fa355b3678a1146ad16f7e8649e94fb4fc21fe77e8310c060f61caaff8a layer sha256:00000000000000000000000000000000000000000000000000000000000008e0 subject sha256:1111111111111111111111111111111111111111111111111111111111111111''],
         clock := 1\<rparr>)"
  by (simp add: main_def ensureOutputDir_def listAbiFiles_def endsWith_def approachD_eq approachA_eq
      example_paths example_tarFiles_layer [unfolded example_abiFiles_def]
      bind_io_def return_io_def throw_io_def console_log_def console_error_def process_exit_def
      existsSync_def mkdirSync_def readdirSync_def readFileSync_def writeFileSync_def unlinkSync_def
      path_join_def normalize_def dirname_def basename_def slash_def Let_def
      example_platform_fields example_world_fresh_def example_world_def example_sha256_def
      hex_2272 hex_digit_def quote_def
      EMPTY_DESCRIPTOR_def SUBJECT_DESCRIPTOR_def)

subsection \<open>The claims\<close>




text \<open>
  Claim C2, as amended. Approach D takes no subject from its caller and has no failure
  of its own. It prints its line and calls approach A: where that call fails, D fails
  with the same error and in the same state, and only there; where that call returns
  a manifest, D returns that manifest with \<open>subject\<close> set to the constant
  \<open>SUBJECT_DESCRIPTOR\<close>, in the same state. There is no "missing subject" outcome.
\<close>

theorem approachD_fails_exactly_as_approachA:
  "approachD P abiFiles w =
     (case approachA P abiFiles
             (w\<lparr>stdout := stdout w @
                  [''Approach D: referencing another manifest with '' @ quote @ ''subject''
                     @ quote @ ''. Example uses Approach A + '' @ quote @ ''subject'' @ quote @ ''.'']\<rparr>) of
        (Inl e, w') \<Rightarrow> (Inl e, w')
      | (Inr mA, w') \<Rightarrow> (Inr (mA\<lparr>subject := Some SUBJECT_DESCRIPTOR\<rparr>), w'))
   \<and> SUBJECT_DESCRIPTOR =
       \<lparr>mediaType = ''application/vnd.oci.image.manifest.v1+json'',
        digest = ''sha256:1111111111111111111111111111111111111111111111111111111111111111'',
        size_d = 9999, annotations = None\<rparr>"
  by (simp add: approachD_def bind_io_apply console_log_apply return_io_apply SUBJECT_DESCRIPTOR_def
      split: prod.splits sum.splits)

text \<open>The example files give a manifest with the subject. The empty list gives the
  \<open>TypeError\<close> of approach A, and the installation without the \<open>output\<close> directory
  the error of tar.\<close>

theorem approachD_fails_exactly_as_approachA_witness:
  "fst (approachD example_platform example_abiFiles example_world) =
     Inr \<lparr>schemaVersion = 2,
          mediaType_m = ''application/vnd.oci.image.manifest.v1+json'',
          artifactType = ''application/vnd.solidity.abi'',
          config = EMPTY_DESCRIPTOR,
          layers = [\<lparr>mediaType = ''application/vnd.solidity.abi.layer.v1+tar+gzip'',
                      digest = ''sha256:00000000000000000000000000000000000000000000000000000000000008e0'',
                      size_d = 27, annotations = None\<rparr>],
          subject = Some SUBJECT_DESCRIPTOR\<rparr>
   \<and> fst (approachD example_platform [] example_world) = Inl TypeError
   \<and> fst (approachD example_platform example_abiFiles example_world_fresh) = Inl ExecError"
proof -
  have 1: "fst (approachD example_platform example_abiFiles example_world) =
     Inr \<lparr>schemaVersion = 2,
          mediaType_m = ''application/vnd.oci.image.manifest.v1+json'',
          artifactType = ''application/vnd.solidity.abi'',
          config = EMPTY_DESCRIPTOR,
          layers = [\<lparr>mediaType = ''application/vnd.solidity.abi.layer.v1+tar+gzip'',
                      digest = ''sha256:00000000000000000000000000000000000000000000000000000000000008e0'',
                      size_d = 27, annotations = None\<rparr>],
          subject = Some SUBJECT_DESCRIPTOR\<rparr>"
    using conjunct1 [OF approachD_fails_exactly_as_approachA [of example_platform example_abiFiles example_world]]
    by (simp add: approachA_eq example_paths example_tarFiles_layer example_world_def
        example_platform_fields example_sha256_def hex_2272 hex_digit_def)
  have 2: "fst (approachD example_platform [] example_world) = Inl TypeError"
    using conjunct1 [OF approachD_fails_exactly_as_approachA [of example_platform "[]" example_world]]
    by (simp add: approachA_Nil example_paths example_world_def)
  have 3: "fst (approachD example_platform example_abiFiles example_world_fresh) = Inl ExecError"
    using conjunct1 [OF approachD_fails_exactly_as_approachA [of example_platform example_abiFiles example_world_fresh]]
    by (simp add: approachA_eq example_paths example_tarFiles_layer example_world_fresh_def example_world_def)
  from 1 2 3 show ?thesis by simp
qed

text \<open>
  Against claim C2 as it is stated: the script started in a fresh installation with the
  selector \<open>D\<close> and nothing else (there is no subject to pass) ends normally and writes
  a manifest that has the subject of \<open>SUBJECT_DESCRIPTOR\<close>.
\<close>

theorem main_D_succeeds_without_subject:
  "fst (main example_platform (Some ''D'') example_world_fresh) = Inr ()
   \<and> files (snd (main example_platform (Some ''D'') example_world_fresh)) ''/w/output/manifest.json'' =
       Some ''application/vnd.solidity.abi config sha256:44136fa355b3678a1146ad16f7e8649e94fb4fc21fe77e8310c060f61caaff8a layer sha256:00000000000000000000000000000000000000000000000000000000000008e0 subject sha256:1111111111111111111111111111111111111111111111111111111111111111''"
  by (simp add: example_main_D)

text \<open>
  Claim C3, as amended. Approach D takes no subject descriptor: the subject it attaches
  is the constant \<open>SUBJECT_DESCRIPTOR\<close>. Approach D returns a manifest exactly when
  the call of approach A that it makes, after printing its line, returns one; the
  manifest of D is then that manifest of A with \<open>subject\<close> set to
  \<open>SUBJECT_DESCRIPTOR\<close>. The manifest of A has no subject, and \<open>schemaVersion\<close>,
  \<open>mediaType\<close>, \<open>artifactType\<close>, \<open>config\<close> and \<open>layers\<close> are the same in both. Nothing
  is said of another run of approach A, which packs an archive of its own.
\<close>

theorem approachD_is_its_approachA_plus_SUBJECT_DESCRIPTOR:
  "approachD P abiFiles w = (Inr mD, w') \<longleftrightarrow>
     (\<exists>mA. approachA P abiFiles
              (w\<lparr>stdout := stdout w @
                   [''Approach D: referencing another manifest with '' @ quote @ ''subject''
                      @ quote @ ''. Example uses Approach A + '' @ quote @ ''subject'' @ quote @ ''.'']\<rparr>)
              = (Inr mA, w')
          \<and> abiFiles \<noteq> []
          \<and> subject mA = None
          \<and> mD = mA\<lparr>subject := Some SUBJECT_DESCRIPTOR\<rparr>
          \<and> subject mD = Some SUBJECT_DESCRIPTOR
          \<and> schemaVersion mD = schemaVersion mA \<and> mediaType_m mD = mediaType_m mA
          \<and> artifactType mD = artifactType mA \<and> config mD = config mA \<and> layers mD = layers mA)"
proof
  let ?w = "w\<lparr>stdout := stdout w @
                   [''Approach D: referencing another manifest with '' @ quote @ ''subject''
                      @ quote @ ''. Example uses Approach A + '' @ quote @ ''subject'' @ quote @ ''.'']\<rparr>"
  assume "approachD P abiFiles w = (Inr mD, w')"
  then obtain mA where a: "approachA P abiFiles ?w = (Inr mA, w')"
    and m: "mD = mA\<lparr>subject := Some SUBJECT_DESCRIPTOR\<rparr>"
    unfolding approachD_eq by (auto split: prod.splits sum.splits)
  from approachA_Inr [OF a] have "abiFiles \<noteq> []" "subject mA = None" by auto
  with a m show "\<exists>mA. approachA P abiFiles ?w = (Inr mA, w')
          \<and> abiFiles \<noteq> []
          \<and> subject mA = None
          \<and> mD = mA\<lparr>subject := Some SUBJECT_DESCRIPTOR\<rparr>
          \<and> subject mD = Some SUBJECT_DESCRIPTOR
          \<and> schemaVersion mD = schemaVersion mA \<and> mediaType_m mD = mediaType_m mA
          \<and> artifactType mD = artifactType mA \<and> config mD = config mA \<and> layers mD = layers mA"
    by simp
next
  let ?w = "w\<lparr>stdout := stdout w @
                   [''Approach D: referencing another manifest with '' @ quote @ ''subject''
                      @ quote @ ''. Example uses Approach A + '' @ quote @ ''subject'' @ quote @ ''.'']\<rparr>"
  assume "\<exists>mA. approachA P abiFiles ?w = (Inr mA, w')
          \<and> abiFiles \<noteq> []
          \<and> subject mA = None
          \<and> mD = mA\<lparr>subject := Some SUBJECT_DESCRIPTOR\<rparr>
          \<and> subject mD = Some SUBJECT_DESCRIPTOR
          \<and> schemaVersion mD = schemaVersion mA \<and> mediaType_m mD = mediaType_m mA
          \<and> artifactType mD = artifactType mA \<and> config mD = config mA \<and> layers mD = layers mA"
  then obtain mA where "approachA P abiFiles ?w = (Inr mA, w')"
    "mD = mA\<lparr>subject := Some SUBJECT_DESCRIPTOR\<rparr>" by blast
  then show "approachD P abiFiles w = (Inr mD, w')"
    unfolding approachD_eq by simp
qed

text \<open>The manifest of approach D for the example files, and the manifest of the call
  of approach A inside it.\<close>

theorem approachD_is_its_approachA_plus_SUBJECT_DESCRIPTOR_witness:
  "\<exists>mA mD w'.
       approachD example_platform example_abiFiles example_world = (Inr mD, w')
     \<and> approachA example_platform example_abiFiles
         (example_world\<lparr>stdout := stdout example_world @
            [''Approach D: referencing another manifest with '' @ quote @ ''subject''
               @ quote @ ''. Example uses Approach A + '' @ quote @ ''subject'' @ quote @ ''.'']\<rparr>)
         = (Inr mA, w')
     \<and> subject mA = None
     \<and> mD = mA\<lparr>subject := Some SUBJECT_DESCRIPTOR\<rparr>
     \<and> layers mD = layers mA \<and> config mD = EMPTY_DESCRIPTOR
     \<and> map size_d (layers mD) = [27]"
proof -
  note t = iffD1 [OF approachD_is_its_approachA_plus_SUBJECT_DESCRIPTOR, OF example_approachD]
  then obtain mA where a: "approachA example_platform example_abiFiles
         (example_world\<lparr>stdout := stdout example_world @
            [''Approach D: referencing another manifest with '' @ quote @ ''subject''
               @ quote @ ''. Example uses Approach A + '' @ quote @ ''subject'' @ quote @ ''.'']\<rparr>)
         = (Inr mA, example_world
        \<lparr>files := (files example_world)(''/w/output/abis-single-layer.tgz'' \<mapsto> ''time=0;A.abi:[];B.abi:[{}];''),
         stdout := [''Approach D: referencing another manifest with '' @ quote @ ''subject''
                      @ quote @ ''. Example uses Approach A + '' @ quote @ ''subject'' @ quote @ ''.'',
                    ''Approach A: minimal config + single layer with all ABI files.''],
         clock := 1\<rparr>)"
    and n: "subject mA = None"
    and m: "\<lparr>schemaVersion = 2,
          mediaType_m = ''application/vnd.oci.image.manifest.v1+json'',
          artifactType = ''application/vnd.solidity.abi'',
          config = EMPTY_DESCRIPTOR,
          layers = [\<lparr>mediaType = ''application/vnd.solidity.abi.layer.v1+tar+gzip'',
                      digest = ''sha256:00000000000000000000000000000000000000000000000000000000000008e0'',
                      size_d = 27, annotations = None\<rparr>],
          subject = Some SUBJECT_DESCRIPTOR\<rparr> = mA\<lparr>subject := Some SUBJECT_DESCRIPTOR\<rparr>"
    by blast
  from m have l: "layers mA = [\<lparr>mediaType = ''application/vnd.solidity.abi.layer.v1+tar+gzip'',
                      digest = ''sha256:00000000000000000000000000000000000000000000000000000000000008e0'',
                      size_d = 27, annotations = None\<rparr>]"
    and c: "config mA = EMPTY_DESCRIPTOR"
    by (cases mA, simp)+
  show ?thesis
    unfolding example_approachD
    apply (intro exI conjI)
          apply (rule refl)
         apply (rule a)
        apply (rule n)
       apply (rule m)
      apply (simp add: l)
     apply simp
    apply simp
    done
qed

text \<open>
  Against claim C3 as it is stated, in the example installation. The subject in the
  manifest of approach D is \<open>SUBJECT_DESCRIPTOR\<close>; for another subject descriptor, here
  the empty descriptor, the manifest of D is not the manifest of A with that subject.
  And approach D run after approach A on the same files packs its archive a second
  later: its layer has another digest than the layer in the manifest of that run of A.
\<close>

theorem approachD_subject_and_archive_are_its_own:
  "fst (approachA example_platform example_abiFiles example_world) =
     Inr \<lparr>schemaVersion = 2,
          mediaType_m = ''application/vnd.oci.image.manifest.v1+json'',
          artifactType = ''application/vnd.solidity.abi'',
          config = EMPTY_DESCRIPTOR,
          layers = [\<lparr>mediaType = ''application/vnd.solidity.abi.layer.v1+tar+gzip'',
                      digest = ''sha256:00000000000000000000000000000000000000000000000000000000000008e0'',
                      size_d = 27, annotations = None\<rparr>],
          subject = None\<rparr>
   \<and> fst (approachD example_platform example_abiFiles example_world) \<noteq>
     Inr \<lparr>schemaVersion = 2,
          mediaType_m = ''application/vnd.oci.image.manifest.v1+json'',
          artifactType = ''application/vnd.solidity.abi'',
          config = EMPTY_DESCRIPTOR,
          layers = [\<lparr>mediaType = ''application/vnd.solidity.abi.layer.v1+tar+gzip'',
                      digest = ''sha256:00000000000000000000000000000000000000000000000000000000000008e0'',
                      size_d = 27, annotations = None\<rparr>],
          subject = Some EMPTY_DESCRIPTOR\<rparr>
   \<and> fst (approachD example_platform example_abiFiles
            (snd (approachA example_platform example_abiFiles example_world))) =
     Inr \<lparr>schemaVersion = 2,
          mediaType_m = ''application/vnd.oci.image.manifest.v1+json'',
          artifactType = ''application/vnd.solidity.abi'',
          config = EMPTY_DESCRIPTOR,
          layers = [\<lparr>mediaType = ''application/vnd.solidity.abi.layer.v1+tar+gzip'',
                      digest = ''sha256:00000000000000000000000000000000000000000000000000000000000008e1'',
                      size_d = 27, annotations = None\<rparr>],
          subject = Some SUBJECT_DESCRIPTOR\<rparr>"
  by (simp add: example_approachD_after_A)
    (simp add: example_approachA example_approachD EMPTY_DESCRIPTOR_def SUBJECT_DESCRIPTOR_def)

text \<open>
  Claim C4. With each of the four selectors, when the \<open>contracts\<close> directory lists no
  \<open>.abi\<close> file, so that \<open>listAbiFiles\<close> returns the empty list, \<open>main\<close> prints
  \<open>No .abi files found in 'contracts' directory.\<close> on the error stream and exits with
  status 1. No file is written (so there is no manifest) and nothing is printed on the
  output stream.
\<close>

theorem main_empty_input:
  assumes "approach \<in> {Some ''A'', Some ''B'', Some ''C'', Some ''D''}"
    and "dirs w (ABI_DIR P) = Some names"
    and "\<forall>f\<in>set names. \<not> endsWith f ''.abi''"
  shows "fst (listAbiFiles P (snd (ensureOutputDir P w))) = Inr []
       \<and> fst (main P approach w) = Inl (ProcessExit 1)
       \<and> stderr (snd (main P approach w)) =
           stderr w @ [''No .abi files found in '' @ quote @ ''contracts'' @ quote @ '' directory.'']
       \<and> files (snd (main P approach w)) = files w
       \<and> stdout (snd (main P approach w)) = stdout w"
proof -
  from assms(3) have empty: "filter (\<lambda>f. endsWith f ''.abi'') names = []"
    by (simp add: filter_empty_conv)
  have "fst (listAbiFiles P (snd (ensureOutputDir P w))) = Inr []"
    using ABI_DIR_neq_OUTPUT_DIR [of P] assms(2)
    by (simp add: ensureOutputDir_apply listAbiFiles_apply empty)
  then show ?thesis
    by (simp add: main_no_abi [OF assms])
qed

text \<open>The installation without \<open>.abi\<close> files, with each selector.\<close>

theorem main_empty_input_witness:
  "fst (main example_platform (Some ''A'') example_world_no_abi) = Inl (ProcessExit 1)
   \<and> fst (main example_platform (Some ''B'') example_world_no_abi) = Inl (ProcessExit 1)
   \<and> fst (main example_platform (Some ''C'') example_world_no_abi) = Inl (ProcessExit 1)
   \<and> fst (main example_platform (Some ''D'') example_world_no_abi) = Inl (ProcessExit 1)
   \<and> stderr (snd (main example_platform (Some ''A'') example_world_no_abi)) =
       [''No .abi files found in '' @ quote @ ''contracts'' @ quote @ '' directory.'']
   \<and> files (snd (main example_platform (Some ''A'') example_world_no_abi)) (MANIFEST_JSON example_platform) = None
   \<and> files (snd (main example_platform (Some ''B'') example_world_no_abi)) (MANIFEST_JSON example_platform) = None
   \<and> files (snd (main example_platform (Some ''C'') example_world_no_abi)) (MANIFEST_JSON example_platform) = None
   \<and> files (snd (main example_platform (Some ''D'') example_world_no_abi)) (MANIFEST_JSON example_platform) = None"
proof -
  have n: "\<forall>f\<in>set [''notes.txt'']. \<not> endsWith f ''.abi''"
    by (simp add: endsWith_def)
  have f: "files example_world (MANIFEST_JSON example_platform) = None"
    by (simp add: example_paths example_world_def)
  have r: "fst (main example_platform a example_world_no_abi) = Inl (ProcessExit 1)
     \<and> stderr (snd (main example_platform a example_world_no_abi)) =
         [''No .abi files found in '' @ quote @ ''contracts'' @ quote @ '' directory.'']
     \<and> files (snd (main example_platform a example_world_no_abi)) (MANIFEST_JSON example_platform) = None"
    if a: "a \<in> {Some ''A'', Some ''B'', Some ''C'', Some ''D''}" for a
    using main_empty_input [OF a example_no_abi_dirs(1) n] f
    by (simp add: example_no_abi_dirs)
  from r [of "Some ''A''"] r [of "Some ''B''"] r [of "Some ''C''"] r [of "Some ''D''"]
  show ?thesis by simp
qed

text \<open>
  Claim C5. Every manifest that approach A or approach C returns has as its config the
  constant \<open>EMPTY_DESCRIPTOR\<close>: media type \<open>application/vnd.oci.empty.v1+json\<close>, the
  fixed digest, size 2, and no annotations, whatever the files hold.
\<close>

theorem config_is_EMPTY_DESCRIPTOR:
  assumes "approachA P abiFiles w = (Inr m, w') \<or> approachC P abiFiles w = (Inr m, w')"
  shows "config m = EMPTY_DESCRIPTOR
       \<and> config m = \<lparr>mediaType = ''application/vnd.oci.empty.v1+json'',
                      digest = ''sha256:44136fa355b3678a1146ad16f7e8649e94fb4fc21fe77e8310c060f61caaff8a'',
                      size_d = 2, annotations = None\<rparr>"
proof -
  from assms have "config m = EMPTY_DESCRIPTOR"
    using approachA_Inr [of P abiFiles w m w'] approachC_Inr [of P abiFiles w m w'] by auto
  then show ?thesis by (simp add: EMPTY_DESCRIPTOR_def)
qed

text \<open>The config of both manifests for the example files.\<close>

theorem config_is_EMPTY_DESCRIPTOR_witness:
  "(\<exists>m. fst (approachA example_platform example_abiFiles example_world) = Inr m
        \<and> config m = \<lparr>mediaType = ''application/vnd.oci.empty.v1+json'',
                      digest = ''sha256:44136fa355b3678a1146ad16f7e8649e94fb4fc21fe77e8310c060f61caaff8a'',
                      size_d = 2, annotations = None\<rparr>)
   \<and> (\<exists>m. fst (approachC example_platform example_abiFiles example_world) = Inr m
        \<and> config m = \<lparr>mediaType = ''application/vnd.oci.empty.v1+json'',
                      digest = ''sha256:44136fa355b3678a1146ad16f7e8649e94fb4fc21fe77e8310c060f61caaff8a'',
                      size_d = 2, annotations = None\<rparr>)"
proof -
  from config_is_EMPTY_DESCRIPTOR [OF disjI1, OF example_approachA]
    config_is_EMPTY_DESCRIPTOR [OF disjI2, OF example_approachC]
  show ?thesis
    by (simp add: example_approachA example_approachC)
qed

text \<open>
  Claim C6. For files that can all be read, approach C returns a manifest with one
  layer per file, in the order of the list: layer \<open>i\<close> has the title annotation
  \<open>path.basename\<close> of file \<open>i\<close>, the size of its bytes and the digest of its
  bytes.
\<close>

theorem approachC_layers_in_order:
  assumes "\<forall>p\<in>set abiFiles. files w p \<noteq> None"
  shows "\<exists>m. approachC P abiFiles w =
             (Inr m, w\<lparr>stdout := stdout w @ [''Approach C: minimal config, each ABI as a separate layer.'']\<rparr>)
         \<and> length (layers m) = length abiFiles
         \<and> (\<forall>i<length abiFiles.
               annotations (layers m ! i) = Some [(''org.opencontainers.image.title'', basename (abiFiles ! i))]
             \<and> mediaType (layers m ! i) = ''application/vnd.solidity.abi.file''
             \<and> (\<exists>b. files w (abiFiles ! i) = Some b
                    \<and> size_d (layers m ! i) = length b
                    \<and> digest (layers m ! i) = ''sha256:'' @ hex (sha256 P b)))"
proof -
  let ?layer = "\<lambda>p. \<lparr>mediaType = ''application/vnd.solidity.abi.file'',
                      digest = ''sha256:'' @ hex (sha256 P (the (files w p))),
                      size_d = length (the (files w p)),
                      annotations = Some [(''org.opencontainers.image.title'', basename p)]\<rparr>"
  let ?m = "\<lparr>schemaVersion = 2,
            mediaType_m = ''application/vnd.oci.image.manifest.v1+json'',
            artifactType = ''application/vnd.solidity.abi'',
            config = EMPTY_DESCRIPTOR,
            layers = map ?layer abiFiles,
            subject = None\<rparr>"
  have run: "approachC P abiFiles w =
      (Inr ?m, w\<lparr>stdout := stdout w @ [''Approach C: minimal config, each ABI as a separate layer.'']\<rparr>)"
    by (rule approachC_ok [OF assms])
  have len: "length (layers ?m) = length abiFiles" by simp
  have each: "annotations (layers ?m ! i) = Some [(''org.opencontainers.image.title'', basename (abiFiles ! i))]
             \<and> mediaType (layers ?m ! i) = ''application/vnd.solidity.abi.file''
             \<and> (\<exists>b. files w (abiFiles ! i) = Some b
                    \<and> size_d (layers ?m ! i) = length b
                    \<and> digest (layers ?m ! i) = ''sha256:'' @ hex (sha256 P b))"
    if i: "i < length abiFiles" for i
  proof -
    from assms i obtain b where b: "files w (abiFiles ! i) = Some b"
      by (auto dest: nth_mem)
    with i show ?thesis by simp
  qed
  from run len each show ?thesis by blast
qed

text \<open>The two example files, of 2 and 4 bytes.\<close>

theorem approachC_layers_in_order_witness:
  "files example_world ''/w/contracts/A.abi'' = Some ''[]''
   \<and> files example_world ''/w/contracts/B.abi'' = Some ''[{}]''
   \<and> (\<exists>m. fst (approachC example_platform example_abiFiles example_world) = Inr m
          \<and> length (layers m) = 2
          \<and> map annotations (layers m) =
              [Some [(''org.opencontainers.image.title'', ''A.abi'')],
               Some [(''org.opencontainers.image.title'', ''B.abi'')]]
          \<and> map size_d (layers m) = [2, 4]
          \<and> config m = EMPTY_DESCRIPTOR)"
proof -
  have h: "\<forall>p\<in>set example_abiFiles. files example_world p \<noteq> None"
    by (simp add: example_defs)
  have f: "files example_world ''/w/contracts/A.abi'' = Some ''[]''"
    "files example_world ''/w/contracts/B.abi'' = Some ''[{}]''"
    by (simp_all add: example_world_def)
  from approachC_layers_in_order [OF h, of example_platform] f show ?thesis
    by (simp add: example_approachC)
qed

text \<open>
  Claim C7. Every manifest returned by approach A, B, C or D has \<open>schemaVersion\<close> 2 and
  the \<open>mediaType\<close> \<open>application/vnd.oci.image.manifest.v1+json\<close>. Its \<open>config\<close> is one
  descriptor (by the type of a manifest): the empty descriptor, or for approach B the
  descriptor of the archive.
\<close>

theorem manifest_required_fields:
  assumes "approachA P abiFiles w = (Inr m, w') \<or> approachB P abiFiles w = (Inr m, w')
         \<or> approachC P abiFiles w = (Inr m, w') \<or> approachD P abiFiles w = (Inr m, w')"
  shows "schemaVersion m = 2
       \<and> mediaType_m m = ''application/vnd.oci.image.manifest.v1+json''
       \<and> (config m = EMPTY_DESCRIPTOR
          \<or> (\<exists>a. config m = \<lparr>mediaType = ''application/vnd.solidity.abi.config.v1+tar+gzip'',
                               digest = ''sha256:'' @ hex (sha256 P a), size_d = length a,
                               annotations = None\<rparr>))"
proof -
  consider (A) "approachA P abiFiles w = (Inr m, w')" | (B) "approachB P abiFiles w = (Inr m, w')"
    | (C) "approachC P abiFiles w = (Inr m, w')" | (D) "approachD P abiFiles w = (Inr m, w')"
    using assms by blast
  then show ?thesis
  proof cases
    case A
    from approachA_Inr [OF this] show ?thesis by auto
  next
    case B
    from approachB_Inr [OF this] show ?thesis by auto
  next
    case C
    from approachC_Inr [OF this] show ?thesis by auto
  next
    case D
    then obtain mA wA where a: "approachA P abiFiles
        (w\<lparr>stdout := stdout w @
            [''Approach D: referencing another manifest with '' @ quote @ ''subject''
                @ quote @ ''. Example uses Approach A + '' @ quote @ ''subject'' @ quote @ ''.'']\<rparr>) = (Inr mA, wA)"
      and m: "m = mA\<lparr>subject := Some SUBJECT_DESCRIPTOR\<rparr>"
      unfolding approachD_eq by (auto split: prod.splits sum.splits)
    from approachA_Inr [OF a] m show ?thesis by auto
  qed
qed

text \<open>The four manifests for the example files.\<close>

theorem manifest_required_fields_witness:
  "\<exists>mA mB mC mD.
       fst (approachA example_platform example_abiFiles example_world) = Inr mA
     \<and> fst (approachB example_platform example_abiFiles example_world) = Inr mB
     \<and> fst (approachC example_platform example_abiFiles example_world) = Inr mC
     \<and> fst (approachD example_platform example_abiFiles example_world) = Inr mD
     \<and> map schemaVersion [mA, mB, mC, mD] = [2, 2, 2, 2]
     \<and> set (map mediaType_m [mA, mB, mC, mD]) = {''application/vnd.oci.image.manifest.v1+json''}"
proof -
  from manifest_required_fields [OF disjI1, OF example_approachA]
    manifest_required_fields [OF disjI2, OF disjI1, OF example_approachB]
    manifest_required_fields [OF disjI2, OF disjI2, OF disjI1, OF example_approachC]
    manifest_required_fields [OF disjI2, OF disjI2, OF disjI2, OF example_approachD]
  show ?thesis
    by (simp add: example_approachA example_approachB example_approachC example_approachD)
qed

text \<open>
  Claim C8. For every byte sequence \<open>b\<close>, the empty one included, that a file holds,
  \<open>computeDigestAndSize\<close> (in both scripts) returns the size \<open>length b\<close> and the digest
  \<open>sha256:\<close> followed by the hexadecimal form of the SHA-256 value of \<open>b\<close>: 64
  characters, each a digit or a lowercase letter from \<open>a\<close> to \<open>f\<close>. The file system is
  left as it was.
\<close>

theorem computeDigestAndSize_digest_size:
  assumes "files w filePath = Some b"
  shows "computeDigestAndSize P filePath w = (Inr (''sha256:'' @ hex (sha256 P b), length b), w)
       \<and> computeDigestAndSize_sub P filePath w = (Inr (''sha256:'' @ hex (sha256 P b), length b), w)
       \<and> length (hex (sha256 P b)) = 64
       \<and> set (hex (sha256 P b)) \<subseteq> set ''0123456789abcdef''"
  using assms length_hex [of "sha256 P b"] set_hex [of "sha256 P b"]
  by (simp add: computeDigestAndSize_def computeDigestAndSize_sub_def bind_io_def readFileSync_def
      return_io_def del: set_simps)

text \<open>The empty file of the example: size 0 and the digest of the empty input.\<close>

theorem computeDigestAndSize_digest_size_witness:
  "files example_world ''/w/empty'' = Some []
   \<and> computeDigestAndSize example_platform ''/w/empty'' example_world =
       (Inr (''sha256:e3b0c44298fc1c149afbf4c8996fb92427ae41e4649b934ca495991b7852b855'', 0), example_world)
   \<and> computeDigestAndSize_sub example_platform ''/w/empty'' example_world =
       (Inr (''sha256:e3b0c44298fc1c149afbf4c8996fb92427ae41e4649b934ca495991b7852b855'', 0), example_world)"
proof -
  have f: "files example_world ''/w/empty'' = Some []"
    by (simp add: example_world_def)
  have s: "sha256 example_platform [] = 0xe3b0c44298fc1c149afbf4c8996fb92427ae41e4649b934ca495991b7852b855"
    by (simp add: example_platform_def example_sha256_def)
  from computeDigestAndSize_digest_size [OF f, of example_platform] f show ?thesis
    by (simp add: s hex_sha256_empty)
qed

text \<open>
  Claim C9. On the empty list \<open>tarFiles\<close> ends in the \<open>TypeError\<close> of
  \<open>path.dirname(undefined)\<close>. Approaches A and B on the empty list end in that
  \<open>TypeError\<close> (or, when their archive path is a directory, in the error of
  \<open>unlinkSync\<close> before it) and print nothing on the error stream: they do not report
  the empty input. That is done by \<open>main\<close> only, which exits with status 1 before a
  builder has printed its first line or touched a file.
\<close>

theorem builders_do_not_check_empty_list:
  "tarFiles P [] outTgzPath w = (Inl TypeError, w)
   \<and> fst (approachA P [] w) =
       (if files w (SINGLE_LAYER_TGZ P) = None \<and> dirs w (SINGLE_LAYER_TGZ P) \<noteq> None
        then Inl (FsError ''unlink'') else Inl TypeError)
   \<and> fst (approachB P [] w) =
       (if files w (SINGLE_CONFIG_TGZ P) = None \<and> dirs w (SINGLE_CONFIG_TGZ P) \<noteq> None
        then Inl (FsError ''unlink'') else Inl TypeError)
   \<and> stderr (snd (approachA P [] w)) = stderr w
   \<and> stderr (snd (approachB P [] w)) = stderr w
   \<and> (\<forall>names a. dirs w (ABI_DIR P) = Some names \<and> (\<forall>f\<in>set names. \<not> endsWith f ''.abi'')
         \<and> a \<in> {''A'', ''B''} \<longrightarrow>
           fst (main P (Some a) w) = Inl (ProcessExit 1)
         \<and> stdout (snd (main P (Some a) w)) = stdout w
         \<and> files (snd (main P (Some a) w)) = files w)"
proof -
  have t: "tarFiles P [] outTgzPath w = (Inl TypeError, w)"
    by (simp add: tarFiles_def throw_io_apply)
  have m: "fst (main P (Some a) w) = Inl (ProcessExit 1)
         \<and> stdout (snd (main P (Some a) w)) = stdout w
         \<and> files (snd (main P (Some a) w)) = files w"
    if "dirs w (ABI_DIR P) = Some names" "\<forall>f\<in>set names. \<not> endsWith f ''.abi''" "a \<in> {''A'', ''B''}"
    for names a
  proof -
    from that(3) have "Some a \<in> {Some ''A'', Some ''B'', Some ''C'', Some ''D''}" by auto
    from main_no_abi [OF this that(1,2)] show ?thesis by simp
  qed
  from t m show ?thesis
    by (simp add: approachA_Nil approachB_Nil)
qed

text \<open>The installation without \<open>.abi\<close> files: the builders on the empty list, and
  \<open>main\<close> with the selectors \<open>A\<close> and \<open>B\<close>.\<close>

theorem builders_do_not_check_empty_list_witness:
  "tarFiles example_platform [] ''/w/out.tgz'' example_world_no_abi = (Inl TypeError, example_world_no_abi)
   \<and> fst (approachA example_platform [] example_world_no_abi) = Inl TypeError
   \<and> fst (approachB example_platform [] example_world_no_abi) = Inl TypeError
   \<and> fst (main example_platform (Some ''A'') example_world_no_abi) = Inl (ProcessExit 1)
   \<and> fst (main example_platform (Some ''B'') example_world_no_abi) = Inl (ProcessExit 1)
   \<and> stdout (snd (main example_platform (Some ''A'') example_world_no_abi)) = []
   \<and> stdout (snd (main example_platform (Some ''B'') example_world_no_abi)) = []"
proof -
  note t = builders_do_not_check_empty_list [of example_platform "''/w/out.tgz''" example_world_no_abi]
  have n: "\<forall>f\<in>set [''notes.txt'']. \<not> endsWith f ''.abi''"
    by (simp add: endsWith_def)
  have f: "files example_world_no_abi (SINGLE_LAYER_TGZ example_platform) = None"
    "dirs example_world_no_abi (SINGLE_LAYER_TGZ example_platform) = None"
    "files example_world_no_abi (SINGLE_CONFIG_TGZ example_platform) = None"
    "dirs example_world_no_abi (SINGLE_CONFIG_TGZ example_platform) = None"
    by (simp_all add: example_world_no_abi_def example_paths example_world_def)
  from t have 1: "tarFiles example_platform [] ''/w/out.tgz'' example_world_no_abi = (Inl TypeError, example_world_no_abi)"
    by (rule conjunct1)
  from t f have 2: "fst (approachA example_platform [] example_world_no_abi) = Inl TypeError"
    "fst (approachB example_platform [] example_world_no_abi) = Inl TypeError"
    by simp_all
  from t have 3: "\<forall>names a. dirs example_world_no_abi (ABI_DIR example_platform) = Some names
         \<and> (\<forall>f\<in>set names. \<not> endsWith f ''.abi'') \<and> a \<in> {''A'', ''B''} \<longrightarrow>
           fst (main example_platform (Some a) example_world_no_abi) = Inl (ProcessExit 1)
         \<and> stdout (snd (main example_platform (Some a) example_world_no_abi)) = stdout example_world_no_abi
         \<and> files (snd (main example_platform (Some a) example_world_no_abi)) = files example_world_no_abi"
    by blast
  from 3 example_no_abi_dirs(1) n
  have 4: "fst (main example_platform (Some a) example_world_no_abi) = Inl (ProcessExit 1)
         \<and> stdout (snd (main example_platform (Some a) example_world_no_abi)) = stdout example_world_no_abi"
    if "a \<in> {''A'', ''B''}" for a
    using that by blast
  from 4 [of "''A''"] 4 [of "''B''"] 1 2 show ?thesis
    by (simp add: example_no_abi_dirs)
qed

text \<open>
  Claim C10. When \<open>.gitmodules\<close> does not exist, or holds no line that, trimmed,
  starts with \<open>[submodule\<close> and has a name in quotes, \<open>parseGitmodules\<close> returns the
  empty object. \<open>main_sub\<close> then ends normally or in the error of writing
  \<open>manifest.json\<close>, never for want of input; and where \<open>manifest.json\<close> is not a
  directory and its directory exists, it ends normally, having written only that file:
  a manifest with the empty list of layers.
\<close>

theorem main_sub_without_submodules:
  assumes "(files w (path_join (cwd P) ''.gitmodules'') = None
            \<and> dirs w (path_join (cwd P) ''.gitmodules'') = None)
         \<or> (\<exists>content. files w (path_join (cwd P) ''.gitmodules'') = Some content
              \<and> (\<forall>l\<in>set (split_on (CHR 0x0A) content).
                    \<not> (startsWith (trim l) ''[submodule'' \<and> match_quoted (trim l) \<noteq> None)))"
  shows "parseGitmodules (path_join (cwd P) ''.gitmodules'') w = (Inr [], w)
       \<and> (fst (main_sub P w) = Inr () \<or> fst (main_sub P w) = Inl (FsError ''open''))
       \<and> (dirs w (manifestPath P) = None \<and> dirs w (dirname (manifestPath P)) \<noteq> None \<longrightarrow>
            fst (main_sub P w) = Inr ()
          \<and> files (snd (main_sub P w)) =
              (files w)(manifestPath P \<mapsto>
                 stringify P \<lparr>schemaVersion = 2,
                               mediaType_m = ''application/vnd.oci.image.manifest.v1+json'',
                               artifactType = ''application/vnd.example.git-submodules'',
                               config = EMPTY_DESCRIPTOR_sub,
                               layers = [],
                               subject = None\<rparr>))"
proof -
  let ?G = "path_join (cwd P) ''.gitmodules''"
  let ?M = "manifestPath P"
  from assms have p: "parseGitmodules ?G w = (Inr [], w)"
    using parseGitmodules_absent [of w ?G] parseGitmodules_no_header [of w ?G] by blast
  from main_sub_empty [OF p] obtain w2 w3 where
    d2: "dirs w2 = dirs w \<or> dirs w2 = (dirs w)(SUBMODULE_LAYER_DIR P \<mapsto> [])"
    and f3: "files w3 = (files w)(?M \<mapsto>
                 stringify P \<lparr>schemaVersion = 2,
                               mediaType_m = ''application/vnd.oci.image.manifest.v1+json'',
                               artifactType = ''application/vnd.example.git-submodules'',
                               config = EMPTY_DESCRIPTOR_sub,
                               layers = [],
                               subject = None\<rparr>)"
    and m: "main_sub P w =
               (if dirs w2 ?M \<noteq> None \<or> dirs w2 (dirname ?M) = None
                then (Inl (FsError ''open''), w2) else (Inr (), w3))"
    by blast
  from m have a: "fst (main_sub P w) = Inr () \<or> fst (main_sub P w) = Inl (FsError ''open'')"
    by (simp split: if_splits)
  have b: "fst (main_sub P w) = Inr () \<and> files (snd (main_sub P w)) = files w3"
    if h: "dirs w ?M = None" "dirs w (dirname ?M) \<noteq> None"
  proof -
    from d2 h manifestPath_neq_SUBMODULE_LAYER_DIR [of P]
    have "dirs w2 ?M = None" "dirs w2 (dirname ?M) \<noteq> None"
      by auto
    with m show ?thesis by simp
  qed
  from p a b f3 show ?thesis by simp
qed

text \<open>The example installation, without \<open>.gitmodules\<close> and with one that names no
  submodule.\<close>

theorem main_sub_without_submodules_witness:
  "fst (main_sub example_platform example_world) = Inr ()
   \<and> files (snd (main_sub example_platform example_world)) ''/w/manifest.json'' =
       Some ''application/vnd.example.git-submodules config sha256:44136fa355b3678a1146ad16f7e8649e94fb4fc21fe77e8310c060f61caaff8a''
   \<and> fst (main_sub example_platform example_world_gitmodules) = Inr ()
   \<and> files (snd (main_sub example_platform example_world_gitmodules)) ''/w/manifest.json'' =
       Some ''application/vnd.example.git-submodules config sha256:44136fa355b3678a1146ad16f7e8649e94fb4fc21fe77e8310c060f61caaff8a''"
proof -
  have absent: "files example_world (path_join (cwd example_platform) ''.gitmodules'') = None
            \<and> dirs example_world (path_join (cwd example_platform) ''.gitmodules'') = None"
    by (simp add: example_sub_paths example_world_def)
  have present: "\<exists>content. files example_world_gitmodules (path_join (cwd example_platform) ''.gitmodules'') = Some content
              \<and> (\<forall>l\<in>set (split_on (CHR 0x0A) content).
                    \<not> (startsWith (trim l) ''[submodule'' \<and> match_quoted (trim l) \<noteq> None))"
    using example_gitmodules_no_header
    by (simp add: example_sub_paths example_world_gitmodules_def)
  have d: "dirs example_world (manifestPath example_platform) = None
        \<and> dirs example_world (dirname (manifestPath example_platform)) \<noteq> None"
    "dirs example_world_gitmodules (manifestPath example_platform) = None
        \<and> dirs example_world_gitmodules (dirname (manifestPath example_platform)) \<noteq> None"
    by (simp_all add: example_sub_paths example_world_gitmodules_def example_world_def)
  from main_sub_without_submodules [OF disjI1, OF absent] d(1)
  have 1: "fst (main_sub example_platform example_world) = Inr ()
          \<and> files (snd (main_sub example_platform example_world)) ''/w/manifest.json'' =
              Some (stringify example_platform \<lparr>schemaVersion = 2,
                               mediaType_m = ''application/vnd.oci.image.manifest.v1+json'',
                               artifactType = ''application/vnd.example.git-submodules'',
                               config = EMPTY_DESCRIPTOR_sub,
                               layers = [],
                               subject = None\<rparr>)"
    by (simp add: example_sub_paths)
  from main_sub_without_submodules [OF disjI2, OF present] d(2)
  have 2: "fst (main_sub example_platform example_world_gitmodules) = Inr ()
          \<and> files (snd (main_sub example_platform example_world_gitmodules)) ''/w/manifest.json'' =
              Some (stringify example_platform \<lparr>schemaVersion = 2,
                               mediaType_m = ''application/vnd.oci.image.manifest.v1+json'',
                               artifactType = ''application/vnd.example.git-submodules'',
                               config = EMPTY_DESCRIPTOR_sub,
                               layers = [],
                               subject = None\<rparr>)"
    by (simp add: example_sub_paths)
  from 1 2 show ?thesis
    by (simp add: example_platform_fields EMPTY_DESCRIPTOR_sub_def)
qed

end
